theory Spec2Isabelle
  imports Main "HOL-Library.AList"
begin

section \<open>The Docker provider of provider/docker/docker.go\<close>

text \<open>
  The provider asks a Docker daemon for its containers (standalone mode) or for its
  services and tasks (swarm mode), turns each into a \<open>dockerData\<close> value and sends
  the configuration built from them on a channel. The daemon client, the Go standard
  library and the configuration builder are outside the file; the model takes the
  daemon's answers as a \<open>client\<close> record, and what the code does to the outside (the
  calls it makes to the daemon, the messages it sends, the sleep, the cancel) as a
  list of effects in the order they happen. Log lines are not modelled.
\<close>

subsection \<open>Go values\<close>

text \<open>
  A Go error value. \<open>EOF\<close> is \<open>io.EOF\<close>; the daemon's other failures carry their text.
\<close>

datatype error = EOF | ContextCanceled | DaemonError string

text \<open>
  A Go map with string keys is an association list, \<open>None\<close> for the nil map.
  \<open>len\<close> counts the keys; an assignment \<open>m[k] = v\<close> is \<open>AList.update k v\<close>.
\<close>

type_synonym 'v gomap = "(string \<times> 'v) list option"

definition len_map :: "'v gomap \<Rightarrow> nat" where
  "len_map m = (case m of None \<Rightarrow> 0 | Some al \<Rightarrow> length (remdups (map fst al)))"

text \<open>\<open>strings.HasPrefix(s, prefix)\<close>.\<close>

definition HasPrefix :: "string \<Rightarrow> string \<Rightarrow> bool" where
  "HasPrefix s pre = (length pre \<le> length s \<and> take (length pre) s = pre)"

text \<open>
  \<open>strconv.Itoa\<close>: the decimal digits of an integer, with a minus sign below zero.
\<close>

fun decimal :: "nat \<Rightarrow> string" where
  "decimal n =
     (if n < 10 then [''0123456789'' ! n]
      else decimal (n div 10) @ [''0123456789'' ! (n mod 10)])"

declare decimal.simps [simp del]

definition Itoa :: "int \<Rightarrow> string" where
  "Itoa i = (if i < 0 then CHR ''-'' # decimal (nat (- i)) else decimal (nat i))"

text \<open>
  \<open>strconv.Atoi\<close> on a 64-bit platform, as \<open>versions.compare\<close> uses it (the error is
  dropped there): an optional sign and decimal digits; \<open>0\<close> when the text is not a
  number; the nearest 64-bit bound when the number does not fit.
\<close>

definition is_digit :: "char \<Rightarrow> bool" where
  "is_digit c = (c \<in> set ''0123456789'')"

definition digits_value :: "string \<Rightarrow> int" where
  "digits_value ds = foldl (\<lambda>n ch. n * 10 + (int (of_char ch) - 48)) 0 ds"

definition Atoi :: "string \<Rightarrow> int" where
  "Atoi s =
     (let neg = (s \<noteq> [] \<and> hd s = CHR ''-'');
          ds = (if s \<noteq> [] \<and> (hd s = CHR ''-'' \<or> hd s = CHR ''+'') then tl s else s)
      in if ds = [] \<or> \<not> list_all is_digit ds then 0
         else let n = digits_value ds
              in if neg then (if n > 2 ^ 63 then - (2 ^ 63) else - n)
                 else (if n \<ge> 2 ^ 63 then 2 ^ 63 - 1 else n))"

text \<open>\<open>strings.Split(s, ".")\<close> for a separator of one character.\<close>

fun Split :: "string \<Rightarrow> char \<Rightarrow> string list" where
  "Split [] sep = [[]]"
| "Split (c # cs) sep =
     (if c = sep then [] # Split cs sep
      else (case Split cs sep of
              [] \<Rightarrow> [[c]]
            | w # ws \<Rightarrow> (c # w) # ws))"

text \<open>
  \<open>versions.GreaterThanOrEqualTo\<close> of the Docker API types (package
  \<open>api/types/versions\<close>): both versions are split at the dots, the parts are compared
  as integers from the left, and a missing part counts as \<open>0\<close>.
\<close>

fun compare_tabs :: "string list \<Rightarrow> string list \<Rightarrow> int" where
  "compare_tabs [] [] = 0"
| "compare_tabs (c # currTab) [] =
     (if Atoi c > 0 then 1 else if 0 > Atoi c then - 1 else compare_tabs currTab [])"
| "compare_tabs [] (d # otherTab) =
     (if 0 > Atoi d then 1 else if Atoi d > 0 then - 1 else compare_tabs [] otherTab)"
| "compare_tabs (c # currTab) (d # otherTab) =
     (if Atoi c > Atoi d then 1 else if Atoi d > Atoi c then - 1
      else compare_tabs currTab otherTab)"

definition compare :: "string \<Rightarrow> string \<Rightarrow> int" where
  "compare v1 v2 = compare_tabs (Split v1 CHR ''.'') (Split v2 CHR ''.'')"

definition GreaterThanOrEqualTo :: "string \<Rightarrow> string \<Rightarrow> bool" where
  "GreaterThanOrEqualTo v other = (compare v other \<ge> 0)"

text \<open>
  Package \<open>net\<close>. \<open>net.ParseCIDR\<close> and the text of a parsed address are parameters of
  the model: \<open>ParseCIDR\<close> gives \<open>None\<close> where the Go function returns an error (and with
  it the nil address), \<open>IP_text\<close> is \<open>IP.String\<close> on an address that is not nil. What
  \<open>IP.String\<close> gives on the nil address is fixed by Go: the text \<open><nil>\<close>.
\<close>

record 'ip net_pkg =
  ParseCIDR :: "string \<Rightarrow> 'ip option"
  IP_text :: "'ip \<Rightarrow> string"

definition IP_String :: "'ip net_pkg \<Rightarrow> 'ip option \<Rightarrow> string" where
  "IP_String net ip = (case ip of None \<Rightarrow> ''<nil>'' | Some a \<Rightarrow> IP_text net a)"

text \<open>
  \<open>filters.Args\<close>: the key and value pairs in the order they were added.
\<close>

type_synonym filters = "(string \<times> string) list"

definition Arg :: "string \<Rightarrow> string \<Rightarrow> string \<times> string" where
  "Arg k v = (k, v)"

definition NewArgs :: "(string \<times> string) list \<Rightarrow> filters" where
  "NewArgs initialArgs = initialArgs"

definition Add :: "filters \<Rightarrow> string \<Rightarrow> string \<Rightarrow> filters" where
  "Add args k v = args @ [(k, v)]"

subsection \<open>The provider's data\<close>

record networkData =
  nd_Name :: string
  nd_Addr :: string
  nd_Port :: int
  nd_Protocol :: string
  nd_ID :: string

record PortBinding =
  HostIP :: string
  HostPort :: string

type_synonym PortMap = "PortBinding list gomap"

record networkSettings =
  NetworkMode :: string
  Ports :: PortMap
  Networks :: "networkData gomap"

record ContainerNode =
  node_ID :: string
  node_IP :: string
  node_Addr :: string
  node_Name :: string

record dockerData =
  ServiceName :: string
  Name :: string
  Labels :: "string gomap"
  NetworkSettings :: networkSettings
  Health :: string
  Node :: "ContainerNode option"
  SegmentLabels :: "string gomap"
  SegmentName :: string

text \<open>The zero values \<open>networkSettings{}\<close> and \<open>dockerData{}\<close>.\<close>

definition networkSettings_zero :: networkSettings where
  "networkSettings_zero = \<lparr>NetworkMode = '''', Ports = None, Networks = None\<rparr>"

definition dockerData_zero :: dockerData where
  "dockerData_zero =
     \<lparr>ServiceName = '''', Name = '''', Labels = None,
      NetworkSettings = networkSettings_zero, Health = '''', Node = None,
      SegmentLabels = None, SegmentName = ''''\<rparr>"

subsection \<open>The daemon's data\<close>

text \<open>
  The parts of the Docker API types the file reads. A pointer that the code tests
  against nil is an option; a field path of the source is spelled with underscores
  (\<open>service.Spec.Annotations.Name\<close> is \<open>Spec_Name\<close>). The values of the map
  \<open>NetworkSettings.Networks\<close> of a container are pointers that the code reads
  without a test: they are taken to be set, as the daemon's answers have them. The
  slot of a task is a Go \<open>int\<close>, on which the code does no arithmetic.
\<close>

record Container =
  Container_ID :: string

record ContainerState =
  Running :: bool
  State_Health :: "string option"  \<comment> \<open>\<open>State.Health\<close>, and in it \<open>Status\<close>\<close>

record ContainerJSONBase =
  base_Name :: string
  base_Node :: "ContainerNode option"
  HostConfig :: "string option"  \<comment> \<open>\<open>HostConfig\<close>, and in it \<open>NetworkMode\<close>\<close>
  State :: "ContainerState option"

record EndpointSettings =
  NetworkID :: string
  IPAddress :: string

record NetworkSettingsJSON =
  json_Ports :: PortMap
  json_Networks :: "EndpointSettings gomap"

record ContainerJSON =
  JSONBase :: "ContainerJSONBase option"
  Config :: "string gomap option"  \<comment> \<open>\<open>Config\<close>, and in it \<open>Labels\<close>\<close>
  json_NetworkSettings :: "NetworkSettingsJSON option"

record NetworkResource =
  nr_ID :: string
  nr_Name :: string

record Version =
  Version_Version :: string
  APIVersion :: string

record VirtualIP =
  vip_NetworkID :: string
  vip_Addr :: string

record Service =
  Service_ID :: string
  Spec_Name :: string
  Spec_Labels :: "string gomap"
  Spec_EndpointSpec :: "string option"  \<comment> \<open>\<open>Spec.EndpointSpec\<close>, and in it \<open>Mode\<close>\<close>
  Spec_Mode_Global :: "unit option"
  Endpoint_VirtualIPs :: "VirtualIP list"

record NetworkAttachment =
  Network_ID :: string
  Addresses :: "string list"

record Task =
  Task_ID :: string
  Slot :: int
  Status_State :: string
  NetworksAttachments :: "NetworkAttachment list option"

record Message =
  Action :: string
  Actor_ID :: string

text \<open>The constants of the swarm types.\<close>

definition ResolutionModeVIP :: string where "ResolutionModeVIP = ''vip''"
definition ResolutionModeDNSRR :: string where "ResolutionModeDNSRR = ''dnsrr''"
definition TaskStateNew :: string where "TaskStateNew = ''new''"
definition TaskStatePending :: string where "TaskStatePending = ''pending''"
definition TaskStateAssigned :: string where "TaskStateAssigned = ''assigned''"
definition TaskStateAccepted :: string where "TaskStateAccepted = ''accepted''"
definition TaskStatePreparing :: string where "TaskStatePreparing = ''preparing''"
definition TaskStateStarting :: string where "TaskStateStarting = ''starting''"
definition TaskStateRunning :: string where "TaskStateRunning = ''running''"

text \<open>
  The daemon as the code sees it: what each call of the client answers, an error or
  the value. \<open>NetworkList\<close> and \<open>TaskList\<close> are asked with filters.
\<close>

record client =
  ContainerList :: "error + Container list"
  ContainerInspect :: "string \<Rightarrow> error + ContainerJSON"
  ServiceList :: "error + Service list"
  ServerVersion :: "error + Version"
  NetworkList :: "filters \<Rightarrow> error + NetworkResource list"
  TaskList :: "filters \<Rightarrow> error + Task list"

text \<open>The calls made to the daemon, and the effects of the watchers.\<close>

datatype call =
  ContainerListCall
  | ContainerInspectCall string
  | ServiceListCall
  | ServerVersionCall
  | NetworkListCall filters
  | TaskListCall filters

record 'cfg ConfigMessage =
  ProviderName :: string
  Configuration :: 'cfg

datatype 'cfg effect =
  Call call
  | Send "'cfg ConfigMessage"
  | Sleep
  | Cancel

subsection \<open>Standalone mode: containers\<close>

definition parseContainer :: "ContainerJSON \<Rightarrow> dockerData" where
  "parseContainer container =
     (let dData = dockerData_zero;
          dData =
            (case JSONBase container of
               None \<Rightarrow> dData
             | Some base \<Rightarrow>
                 (let dData = dData\<lparr>Name := base_Name base\<rparr>;
                      dData = dData\<lparr>ServiceName := Name dData\<rparr>;
                      dData = dData\<lparr>Node := base_Node base\<rparr>;
                      dData =
                        (case HostConfig base of
                           None \<Rightarrow> dData
                         | Some mode \<Rightarrow>
                             dData\<lparr>NetworkSettings :=
                               (NetworkSettings dData)\<lparr>NetworkMode := mode\<rparr>\<rparr>)
                  in case State base of
                       None \<Rightarrow> dData
                     | Some st \<Rightarrow>
                         (case State_Health st of
                            None \<Rightarrow> dData
                          | Some status \<Rightarrow> dData\<lparr>Health := status\<rparr>)));
          dData =
            (case Config container of
               None \<Rightarrow> dData
             | Some None \<Rightarrow> dData
             | Some (Some labels) \<Rightarrow> dData\<lparr>Labels := Some labels\<rparr>)
      in case json_NetworkSettings container of
           None \<Rightarrow> dData
         | Some ns \<Rightarrow>
             (let dData =
                    (case json_Ports ns of
                       None \<Rightarrow> dData
                     | Some ports \<Rightarrow>
                         dData\<lparr>NetworkSettings :=
                           (NetworkSettings dData)\<lparr>Ports := Some ports\<rparr>\<rparr>)
              in case json_Networks ns of
                   None \<Rightarrow> dData
                 | Some networks \<Rightarrow>
                     dData\<lparr>NetworkSettings :=
                       (NetworkSettings dData)\<lparr>Networks :=
                         Some (foldl
                           (\<lambda>m (name, containerNetwork).
                              AList.update name
                                \<lparr>nd_Name = name, nd_Addr = IPAddress containerNetwork,
                                 nd_Port = 0, nd_Protocol = '''',
                                 nd_ID = NetworkID containerNetwork\<rparr> m)
                           [] networks)\<rparr>\<rparr>))"

definition inspectContainers :: "client \<Rightarrow> string \<Rightarrow> call list \<times> dockerData" where
  "inspectContainers dockerClient containerID =
     ([ContainerInspectCall containerID],
      case ContainerInspect dockerClient containerID of
        Inl err \<Rightarrow> dockerData_zero
      | Inr containerInspected \<Rightarrow>
          (case JSONBase containerInspected of
             None \<Rightarrow> dockerData_zero
           | Some base \<Rightarrow>
               (case State base of
                  None \<Rightarrow> dockerData_zero
                | Some st \<Rightarrow>
                    if Running st then parseContainer containerInspected
                    else dockerData_zero)))"

text \<open>
  The loop of \<open>listContainers\<close> over the listed containers: the calls made so far and
  \<open>containersInspected\<close> are carried along.
\<close>

fun listContainers_loop ::
  "client \<Rightarrow> Container list \<Rightarrow> call list \<times> dockerData list \<Rightarrow> call list \<times> dockerData list"
where
  "listContainers_loop dockerClient [] acc = acc"
| "listContainers_loop dockerClient (container # rest) (calls, containersInspected) =
     (let (cs, dData) = inspectContainers dockerClient (Container_ID container)
      in listContainers_loop dockerClient rest
           (calls @ cs,
            if length (Name dData) > 0 then containersInspected @ [dData]
            else containersInspected))"

text \<open>
  An enumeration returns, as the Go function does, the list and the error, and with
  them the calls it made.
\<close>

definition listContainers :: "client \<Rightarrow> call list \<times> dockerData list \<times> error option" where
  "listContainers dockerClient =
     (case ContainerList dockerClient of
        Inl err \<Rightarrow> ([ContainerListCall], [], Some err)
      | Inr containerList \<Rightarrow>
          (let (calls, containersInspected) =
                 listContainers_loop dockerClient containerList ([ContainerListCall], [])
           in (calls, containersInspected, None)))"

subsection \<open>Swarm mode: services and tasks\<close>

text \<open>One turn of the loop of \<open>parseService\<close> over the virtual addresses.\<close>

definition parseService_vip ::
  "'ip net_pkg \<Rightarrow> (string \<rightharpoonup> NetworkResource) \<Rightarrow> (string \<times> networkData) list \<Rightarrow> VirtualIP
     \<Rightarrow> (string \<times> networkData) list"
where
  "parseService_vip net networkMap networks virtualIP =
     (case networkMap (vip_NetworkID virtualIP) of
        None \<Rightarrow> networks
      | Some networkService \<Rightarrow>
          if length (vip_Addr virtualIP) > 0 then
            (let ip = ParseCIDR net (vip_Addr virtualIP);
                 network = \<lparr>nd_Name = nr_Name networkService, nd_Addr = IP_String net ip,
                            nd_Port = 0, nd_Protocol = '''', nd_ID = vip_NetworkID virtualIP\<rparr>
             in AList.update (nd_Name network) network networks)
          else networks)"

definition parseService ::
  "'ip net_pkg \<Rightarrow> Service \<Rightarrow> (string \<rightharpoonup> NetworkResource) \<Rightarrow> dockerData"
where
  "parseService net service networkMap =
     (let dData = \<lparr>ServiceName = Spec_Name service, Name = Spec_Name service,
                   Labels = Spec_Labels service, NetworkSettings = networkSettings_zero,
                   Health = '''', Node = None, SegmentLabels = None, SegmentName = ''''\<rparr>
      in case Spec_EndpointSpec service of
           None \<Rightarrow> dData
         | Some mode \<Rightarrow>
             if mode = ResolutionModeDNSRR then dData
             else if mode = ResolutionModeVIP then
               dData\<lparr>NetworkSettings :=
                 (NetworkSettings dData)\<lparr>Networks :=
                   Some (foldl (parseService_vip net networkMap) []
                           (Endpoint_VirtualIPs service))\<rparr>\<rparr>
             else dData)"

text \<open>
  The loops of \<open>parseTasks\<close>: the inner one over the addresses of one network
  attachment (one turn of it is \<open>parseTasks_address\<close>), the outer one over the
  attachments.
\<close>

definition parseTasks_address ::
  "'ip net_pkg \<Rightarrow> NetworkResource \<Rightarrow> NetworkAttachment \<Rightarrow> (string \<times> networkData) list
     \<Rightarrow> string \<Rightarrow> (string \<times> networkData) list"
where
  "parseTasks_address net networkService virtualIP networks addr =
     (let ip = ParseCIDR net addr;
          network = \<lparr>nd_Name = nr_Name networkService, nd_Addr = IP_String net ip,
                     nd_Port = 0, nd_Protocol = '''', nd_ID = Network_ID virtualIP\<rparr>
      in AList.update (nd_Name network) network networks)"

definition parseTasks_attachment ::
  "'ip net_pkg \<Rightarrow> (string \<rightharpoonup> NetworkResource) \<Rightarrow> (string \<times> networkData) list
     \<Rightarrow> NetworkAttachment \<Rightarrow> (string \<times> networkData) list"
where
  "parseTasks_attachment net networkMap networks virtualIP =
     (case networkMap (Network_ID virtualIP) of
        None \<Rightarrow> networks
      | Some networkService \<Rightarrow>
          if length (Addresses virtualIP) > 0 then
            foldl (parseTasks_address net networkService virtualIP) networks
              (Addresses virtualIP)
          else networks)"

definition parseTasks ::
  "'ip net_pkg \<Rightarrow> Task \<Rightarrow> dockerData \<Rightarrow> (string \<rightharpoonup> NetworkResource) \<Rightarrow> bool \<Rightarrow> dockerData"
where
  "parseTasks net task serviceDockerData networkMap isGlobalSvc =
     (let dData = \<lparr>ServiceName = Name serviceDockerData,
                   Name = Name serviceDockerData @ ''.'' @ Itoa (Slot task),
                   Labels = Labels serviceDockerData,
                   NetworkSettings = networkSettings_zero,
                   Health = '''', Node = None, SegmentLabels = None, SegmentName = ''''\<rparr>;
          dData =
            (if isGlobalSvc then dData\<lparr>Name := Name serviceDockerData @ ''.'' @ Task_ID task\<rparr>
             else dData)
      in case NetworksAttachments task of
           None \<Rightarrow> dData
         | Some attachments \<Rightarrow>
             dData\<lparr>NetworkSettings :=
               (NetworkSettings dData)\<lparr>Networks :=
                 Some (foldl (parseTasks_attachment net networkMap) [] attachments)\<rparr>\<rparr>)"

text \<open>One turn of the loop of \<open>listTasks\<close> over the listed tasks.\<close>

definition listTasks_task ::
  "'ip net_pkg \<Rightarrow> dockerData \<Rightarrow> (string \<rightharpoonup> NetworkResource) \<Rightarrow> bool \<Rightarrow> dockerData list \<Rightarrow> Task
     \<Rightarrow> dockerData list"
where
  "listTasks_task net serviceDockerData networkMap isGlobalSvc dockerDataList task =
     (if Status_State task \<noteq> TaskStateRunning then dockerDataList
      else
        (let dData = parseTasks net task serviceDockerData networkMap isGlobalSvc
         in if len_map (Networks (NetworkSettings dData)) > 0 then dockerDataList @ [dData]
            else dockerDataList))"

definition listTasks ::
  "client \<Rightarrow> 'ip net_pkg \<Rightarrow> string \<Rightarrow> dockerData \<Rightarrow> (string \<rightharpoonup> NetworkResource) \<Rightarrow> bool
     \<Rightarrow> call list \<times> dockerData list \<times> error option"
where
  "listTasks dockerClient net serviceID serviceDockerData networkMap isGlobalSvc =
     (let serviceIDFilter = NewArgs [];
          serviceIDFilter = Add serviceIDFilter ''service'' serviceID;
          serviceIDFilter = Add serviceIDFilter ''desired-state'' ''running''
      in case TaskList dockerClient serviceIDFilter of
           Inl err \<Rightarrow> ([TaskListCall serviceIDFilter], [], Some err)
         | Inr taskList \<Rightarrow>
             ([TaskListCall serviceIDFilter],
              foldl (listTasks_task net serviceDockerData networkMap isGlobalSvc) [] taskList,
              None))"

text \<open>
  One turn of the loop of \<open>listServices\<close> over the listed services. The state of the
  loop is the calls made so far, \<open>dockerDataList\<close> and the variable \<open>err\<close> of the
  function, which the call of \<open>listTasks\<close> assigns. \<open>isBackendLBSwarm\<close> is defined in
  another file of the package and is a parameter here.
\<close>

definition listServices_service ::
  "(dockerData \<Rightarrow> bool) \<Rightarrow> client \<Rightarrow> 'ip net_pkg \<Rightarrow> (string \<rightharpoonup> NetworkResource)
     \<Rightarrow> call list \<times> dockerData list \<times> error option \<Rightarrow> Service
     \<Rightarrow> call list \<times> dockerData list \<times> error option"
where
  "listServices_service isBackendLBSwarm dockerClient net networkMap st service =
     (case st of (calls, dockerDataList, err) \<Rightarrow>
        (let dData = parseService net service networkMap
         in if isBackendLBSwarm dData then
              (if len_map (Networks (NetworkSettings dData)) > 0
               then (calls, dockerDataList @ [dData], err)
               else (calls, dockerDataList, err))
            else
              (let isGlobalSvc = (Spec_Mode_Global service \<noteq> None)
               in case listTasks dockerClient net (Service_ID service) dData networkMap
                         isGlobalSvc of
                    (cs, dockerDataListTasks, err) \<Rightarrow>
                      (if err \<noteq> None then (calls @ cs, dockerDataList, err)
                       else (calls @ cs, dockerDataList @ dockerDataListTasks, err)))))"

text \<open>The loop of \<open>listServices\<close> that fills \<open>networkMap\<close> from the listed networks.\<close>

definition listServices_networkMap :: "NetworkResource list \<Rightarrow> (string \<rightharpoonup> NetworkResource)" where
  "listServices_networkMap networkList =
     foldl (\<lambda>networkMap network. networkMap(nr_ID network \<mapsto> network)) Map.empty networkList"

definition listServices ::
  "(dockerData \<Rightarrow> bool) \<Rightarrow> client \<Rightarrow> 'ip net_pkg
     \<Rightarrow> call list \<times> dockerData list \<times> error option"
where
  "listServices isBackendLBSwarm dockerClient net =
     (case ServiceList dockerClient of
        Inl err \<Rightarrow> ([ServiceListCall], [], Some err)
      | Inr serviceList \<Rightarrow>
          (case ServerVersion dockerClient of
             Inl err \<Rightarrow> ([ServiceListCall, ServerVersionCall], [], Some err)
           | Inr serverVersion \<Rightarrow>
               (let networkListArgs = NewArgs [];
                    networkListArgs =
                      (if GreaterThanOrEqualTo (APIVersion serverVersion) ''1.29''
                       then Add networkListArgs ''scope'' ''swarm''
                       else Add networkListArgs ''driver'' ''overlay'')
                in case NetworkList dockerClient networkListArgs of
                     Inl err \<Rightarrow>
                       ([ServiceListCall, ServerVersionCall, NetworkListCall networkListArgs],
                        [], Some err)
                   | Inr networkList \<Rightarrow>
                       (let networkMap = listServices_networkMap networkList
                        in foldl
                             (listServices_service isBackendLBSwarm dockerClient net networkMap)
                             ([ServiceListCall, ServerVersionCall,
                               NetworkListCall networkListArgs], [], None)
                             serviceList))))"

subsection \<open>The watchers of \<open>Provide\<close>\<close>

text \<open>
  \<open>buildConfiguration\<close> is defined in another file of the package and is a parameter:
  it gives a pointer to a configuration, \<open>None\<close> for nil. Sending on
  \<open>configurationChan\<close> is the effect \<open>Send\<close>.
\<close>

definition listAndUpdateServices ::
  "(dockerData list \<Rightarrow> 'cfg option) \<Rightarrow> (dockerData \<Rightarrow> bool) \<Rightarrow> 'ip net_pkg \<Rightarrow> client
     \<Rightarrow> 'cfg effect list \<times> error option"
where
  "listAndUpdateServices buildConfiguration isBackendLBSwarm net dockerClient =
     (case listServices isBackendLBSwarm dockerClient net of
        (calls, services, err) \<Rightarrow>
          (case err of
             Some e \<Rightarrow> (map Call calls, Some e)
           | None \<Rightarrow>
               (case buildConfiguration services of
                  None \<Rightarrow> (map Call calls, None)
                | Some configuration \<Rightarrow>
                    (map Call calls @
                       [Send \<lparr>ProviderName = ''docker'', Configuration = configuration\<rparr>],
                     None))))"

definition listAndUpdateServicesHelper ::
  "(dockerData list \<Rightarrow> 'cfg option) \<Rightarrow> (dockerData \<Rightarrow> bool) \<Rightarrow> 'ip net_pkg \<Rightarrow> client
     \<Rightarrow> 'cfg effect list"
where
  "listAndUpdateServicesHelper buildConfiguration isBackendLBSwarm net dockerClient =
     fst (listAndUpdateServices buildConfiguration isBackendLBSwarm net dockerClient)"

text \<open>
  The loop labelled \<open>TaskLoop\<close> in the callback: \<open>retry\<close> becomes true, and the loop
  is left, at the first task that is in one of the six states before running.
\<close>

fun TaskLoop :: "bool \<Rightarrow> Task list \<Rightarrow> bool" where
  "TaskLoop retry [] = retry"
| "TaskLoop retry (task # rest) =
     (if Status_State task \<noteq> TaskStateRunning
         \<and> Status_State task \<in> set [TaskStateNew, TaskStatePending, TaskStateAssigned,
               TaskStateAccepted, TaskStatePreparing, TaskStateStarting]
      then True
      else TaskLoop retry rest)"

text \<open>
  The callback of the swarm watcher. It calls itself after a sleep of one second for
  as long as the tasks are not ready, so it may never return: the first argument
  bounds the number of calls, and \<open>None\<close> says that the bound was reached. The daemon
  is a client for each second: \<open>daemon t\<close> answers the calls made after \<open>t\<close> sleeps.
\<close>

fun callbackFunc ::
  "nat \<Rightarrow> (dockerData list \<Rightarrow> 'cfg option) \<Rightarrow> (dockerData \<Rightarrow> bool) \<Rightarrow> 'ip net_pkg
     \<Rightarrow> (nat \<Rightarrow> client) \<Rightarrow> nat \<Rightarrow> Message \<Rightarrow> 'cfg effect list option"
where
  "callbackFunc 0 buildConfiguration isBackendLBSwarm net daemon t msg = None"
| "callbackFunc (Suc fuel) buildConfiguration isBackendLBSwarm net daemon t msg =
     (if Actor_ID msg \<noteq> '''' then
        (let args = NewArgs [Arg ''service'' (Actor_ID msg), Arg ''desired-state'' ''running'']
         in case TaskList (daemon t) args of
              Inl err \<Rightarrow> Some [Call (TaskListCall args)]
            | Inr taskList \<Rightarrow>
                (let retry = False;
                     retry = (if length taskList = 0 then True else retry);
                     retry = TaskLoop retry taskList
                 in if \<not> retry then
                      Some (Call (TaskListCall args) #
                        listAndUpdateServicesHelper buildConfiguration isBackendLBSwarm net
                          (daemon t))
                    else
                      map_option (\<lambda>later. [Call (TaskListCall args), Sleep] @ later)
                        (callbackFunc fuel buildConfiguration isBackendLBSwarm net daemon
                           (Suc t) msg)))
      else
        Some (listAndUpdateServicesHelper buildConfiguration isBackendLBSwarm net (daemon t)))"

text \<open>The handler of the standalone watcher.\<close>

definition startStopHandle ::
  "(dockerData list \<Rightarrow> 'cfg option) \<Rightarrow> client \<Rightarrow> Message \<Rightarrow> 'cfg effect list"
where
  "startStopHandle buildConfiguration dockerClient m =
     (case listContainers dockerClient of
        (calls, containers, err) \<Rightarrow>
          (case err of
             Some e \<Rightarrow> map Call calls @ [Cancel]
           | None \<Rightarrow>
               (case buildConfiguration containers of
                  None \<Rightarrow> map Call calls
                | Some configuration \<Rightarrow>
                    map Call calls @
                      [Send \<lparr>ProviderName = ''docker'', Configuration = configuration\<rparr>])))"

text \<open>
  The loop of the standalone watcher selects on the two channels of
  \<open>dockerClient.Events\<close>. The model runs it on what the channels deliver, in the order
  the loop receives it: an event or an error of the stream. The loop returns the error
  it receives; when nothing more is delivered it is still waiting, which is \<open>None\<close>.
  \<open>daemon n\<close> answers the calls made while the \<open>n\<close>-th delivery is handled.
\<close>

datatype delivery = EventMsg Message | StreamErr error

fun watchEvents ::
  "(dockerData list \<Rightarrow> 'cfg option) \<Rightarrow> (nat \<Rightarrow> client) \<Rightarrow> nat \<Rightarrow> delivery list
     \<Rightarrow> 'cfg effect list \<times> error option"
where
  "watchEvents buildConfiguration daemon n [] = ([], None)"
| "watchEvents buildConfiguration daemon n (StreamErr err # rest) = ([], Some err)"
| "watchEvents buildConfiguration daemon n (EventMsg event # rest) =
     (let handled =
            (if Action event = ''start'' \<or> Action event = ''die''
                \<or> HasPrefix (Action event) ''health_status''
             then startStopHandle buildConfiguration (daemon n) event
             else [])
      in case watchEvents buildConfiguration daemon (Suc n) rest of
           (later, result) \<Rightarrow> (handled @ later, result))"

text \<open>
  The events that the loop of the standalone watcher has received when it returns or
  waits: those delivered before the first error of the stream.
\<close>

fun received_events :: "delivery list \<Rightarrow> Message list" where
  "received_events [] = []"
| "received_events (StreamErr err # rest) = []"
| "received_events (EventMsg event # rest) = event # received_events rest"

subsection \<open>A daemon to run the code on\<close>

text \<open>
  Concrete values on which the definitions are evaluated: a \<open>net\<close> package that
  parses two addresses, an \<open>isBackendLBSwarm\<close> that reads the label
  \<open>traefik.backend.loadbalancer.swarm\<close>, a configuration builder that counts the
  records, and a daemon with three containers, one network, five services and their
  tasks.
\<close>

definition example_net :: "string net_pkg" where
  "example_net =
     \<lparr>ParseCIDR = (\<lambda>s. if s = ''10.0.0.5/24'' then Some ''10.0.0.5''
                       else if s = ''10.0.0.9/24'' then Some ''10.0.0.9'' else None),
      IP_text = (\<lambda>a. a)\<rparr>"

definition example_isBackendLBSwarm :: "dockerData \<Rightarrow> bool" where
  "example_isBackendLBSwarm d =
     (case Labels d of
        None \<Rightarrow> False
      | Some labels \<Rightarrow> map_of labels ''traefik.backend.loadbalancer.swarm'' = Some ''true'')"

definition example_buildConfiguration :: "dockerData list \<Rightarrow> nat option" where
  "example_buildConfiguration records = Some (length records)"

definition container_web :: ContainerJSON where
  "container_web =
     \<lparr>JSONBase = Some \<lparr>base_Name = ''/web'', base_Node = None, HostConfig = Some ''host'',
                        State = Some \<lparr>Running = True, State_Health = None\<rparr>\<rparr>,
      Config = None,
      json_NetworkSettings =
        Some \<lparr>json_Ports = None,
              json_Networks = Some [(''host'', \<lparr>NetworkID = ''h1'', IPAddress = ''''\<rparr>)]\<rparr>\<rparr>"

definition container_bare :: ContainerJSON where
  "container_bare =
     \<lparr>JSONBase = Some \<lparr>base_Name = ''/bare'', base_Node = None, HostConfig = Some ''none'',
                        State = Some \<lparr>Running = True, State_Health = None\<rparr>\<rparr>,
      Config = None,
      json_NetworkSettings = Some \<lparr>json_Ports = None, json_Networks = Some []\<rparr>\<rparr>"

definition container_old :: ContainerJSON where
  "container_old =
     \<lparr>JSONBase = Some \<lparr>base_Name = ''/old'', base_Node = None, HostConfig = None,
                        State = Some \<lparr>Running = False, State_Health = None\<rparr>\<rparr>,
      Config = None, json_NetworkSettings = None\<rparr>"

definition task_running :: Task where
  "task_running =
     \<lparr>Task_ID = ''t1'', Slot = 1, Status_State = ''running'',
      NetworksAttachments = Some [\<lparr>Network_ID = ''n1'', Addresses = [''10.0.0.5/24'']\<rparr>]\<rparr>"

definition task_preparing :: Task where
  "task_preparing =
     \<lparr>Task_ID = ''t2'', Slot = 2, Status_State = ''preparing'',
      NetworksAttachments = Some [\<lparr>Network_ID = ''n1'', Addresses = [''10.0.0.9/24'']\<rparr>]\<rparr>"

definition task_badaddr :: Task where
  "task_badaddr =
     \<lparr>Task_ID = ''t3'', Slot = 3, Status_State = ''running'',
      NetworksAttachments = Some [\<lparr>Network_ID = ''n1'', Addresses = [''10.0.0.7'']\<rparr>]\<rparr>"

definition lb_labels :: "string gomap" where
  "lb_labels = Some [(''traefik.backend.loadbalancer.swarm'', ''true'')]"

definition service_api :: Service where
  "service_api =
     \<lparr>Service_ID = ''s1'', Spec_Name = ''api'', Spec_Labels = None,
      Spec_EndpointSpec = None, Spec_Mode_Global = None, Endpoint_VirtualIPs = []\<rparr>"

definition service_db :: Service where
  "service_db =
     \<lparr>Service_ID = ''s2'', Spec_Name = ''db'', Spec_Labels = None,
      Spec_EndpointSpec = None, Spec_Mode_Global = None, Endpoint_VirtualIPs = []\<rparr>"

definition service_dns :: Service where
  "service_dns =
     \<lparr>Service_ID = ''s3'', Spec_Name = ''dns'', Spec_Labels = lb_labels,
      Spec_EndpointSpec = Some ''dnsrr'', Spec_Mode_Global = None, Endpoint_VirtualIPs = []\<rparr>"

definition service_vip :: Service where
  "service_vip =
     \<lparr>Service_ID = ''s4'', Spec_Name = ''vip'', Spec_Labels = lb_labels,
      Spec_EndpointSpec = Some ''vip'', Spec_Mode_Global = None,
      Endpoint_VirtualIPs = [\<lparr>vip_NetworkID = ''n1'', vip_Addr = ''10.0.0.7''\<rparr>]\<rparr>"

definition service_agent :: Service where
  "service_agent =
     \<lparr>Service_ID = ''s5'', Spec_Name = ''agent'', Spec_Labels = None,
      Spec_EndpointSpec = None, Spec_Mode_Global = Some (), Endpoint_VirtualIPs = []\<rparr>"

text \<open>
  The daemon, for an API version and a list of services. The task list of \<open>s2\<close>
  fails. Container \<open>c1\<close> runs in the network mode \<open>host\<close>, where the daemon
  reports the network \<open>host\<close> with no address; container \<open>c2\<close> has stopped;
  container \<open>c3\<close> runs and is attached to no network.
\<close>

definition example_client :: "string \<Rightarrow> Service list \<Rightarrow> client" where
  "example_client apiVersion services =
     \<lparr>ContainerList =
        Inr [\<lparr>Container_ID = ''c1''\<rparr>, \<lparr>Container_ID = ''c2''\<rparr>, \<lparr>Container_ID = ''c3''\<rparr>],
      ContainerInspect =
        (\<lambda>containerID. if containerID = ''c1'' then Inr container_web
                        else if containerID = ''c2'' then Inr container_old
                        else if containerID = ''c3'' then Inr container_bare
                        else Inl (DaemonError ''no such container'')),
      ServiceList = Inr services,
      ServerVersion = Inr \<lparr>Version_Version = ''17.06'', APIVersion = apiVersion\<rparr>,
      NetworkList = (\<lambda>args. Inr [\<lparr>nr_ID = ''n1'', nr_Name = ''backend''\<rparr>]),
      TaskList =
        (\<lambda>args. if args = [(''service'', ''s1''), (''desired-state'', ''running'')]
                    then Inr [task_running, task_preparing]
                  else if args = [(''service'', ''s2''), (''desired-state'', ''running'')]
                    then Inl (DaemonError ''task list failed'')
                  else if args = [(''service'', ''s3''), (''desired-state'', ''running'')]
                    then Inr [task_running]
                  else if args = [(''service'', ''s5''), (''desired-state'', ''running'')]
                    then Inr [task_running, task_badaddr]
                  else Inr [])\<rparr>"

definition example_networkMap :: "string \<rightharpoonup> NetworkResource" where
  "example_networkMap = listServices_networkMap [\<lparr>nr_ID = ''n1'', nr_Name = ''backend''\<rparr>]"

definition example_api :: dockerData where
  "example_api = parseService example_net service_api example_networkMap"

section \<open>Facts about the loops and the library\<close>

subsection \<open>What the enumerations return\<close>

lemma listContainers_loop_calls:
  "fst (listContainers_loop c cl (calls, acc)) =
     calls @ map (\<lambda>x. ContainerInspectCall (Container_ID x)) cl"
  by (induction cl arbitrary: calls acc) (simp_all add: inspectContainers_def)





lemma listTasks_fold:
  "foldl (listTasks_task net sdd nm g) acc ts =
     acc @ filter (\<lambda>d. len_map (Networks (NetworkSettings d)) > 0)
             (map (\<lambda>t. parseTasks net t sdd nm g)
                (filter (\<lambda>t. Status_State t = TaskStateRunning) ts))"
  by (induction ts arbitrary: acc) (simp_all add: listTasks_task_def Let_def)

lemma listTasks_calls:
  "fst (listTasks c net sid sdd nm g) =
     [TaskListCall [(''service'', sid), (''desired-state'', ''running'')]]"
  by (simp add: listTasks_def NewArgs_def Add_def Let_def split: sum.splits)

lemma listTasks_records:
  assumes "d \<in> set (fst (snd (listTasks c net sid sdd nm g)))"
  shows "\<exists>taskList task.
           TaskList c [(''service'', sid), (''desired-state'', ''running'')] = Inr taskList
           \<and> task \<in> set taskList \<and> Status_State task = ''running''
           \<and> d = parseTasks net task sdd nm g
           \<and> len_map (Networks (NetworkSettings d)) > 0"
  using assms
  by (auto simp: listTasks_def listTasks_fold NewArgs_def Add_def TaskStateRunning_def Let_def
      split: sum.splits)

lemma listServices_service_calls:
  "\<exists>argss. fst (listServices_service isLB c net nm (calls, ddl, err) s)
     = calls @ map TaskListCall argss"
proof (cases "isLB (parseService net s nm)")
  case True
  then have "fst (listServices_service isLB c net nm (calls, ddl, err) s) = calls @ map TaskListCall []"
    by (simp add: listServices_service_def Let_def)
  then show ?thesis by blast
next
  case False
  obtain cs recs e where lt: "listTasks c net (Service_ID s) (parseService net s nm) nm
      (Spec_Mode_Global s \<noteq> None) = (cs, recs, e)"
    by (cases "listTasks c net (Service_ID s) (parseService net s nm) nm (Spec_Mode_Global s \<noteq> None)") auto
  from listTasks_calls [of c net "Service_ID s" "parseService net s nm" nm "Spec_Mode_Global s \<noteq> None"] lt
  have cs: "cs = map TaskListCall [[(''service'', Service_ID s), (''desired-state'', ''running'')]]"
    by simp
  from False lt have "fst (listServices_service isLB c net nm (calls, ddl, err) s) = calls @ cs"
    by (simp add: listServices_service_def Let_def)
  with cs show ?thesis by blast
qed

lemma listServices_fold_calls:
  "\<exists>argss. fst (foldl (listServices_service isLB c net nm) (calls, ddl, err) sl)
     = calls @ map TaskListCall argss"
proof (induction sl arbitrary: calls ddl err)
  case Nil
  have "fst (foldl (listServices_service isLB c net nm) (calls, ddl, err) [])
     = calls @ map TaskListCall []" by simp
  then show ?case by blast
next
  case (Cons s sl)
  obtain calls' ddl' err' where st: "listServices_service isLB c net nm (calls, ddl, err) s
      = (calls', ddl', err')"
    by (cases "listServices_service isLB c net nm (calls, ddl, err) s") auto
  from listServices_service_calls [of isLB c net nm calls ddl err s] st
  obtain a1 where a1: "calls' = calls @ map TaskListCall a1" by auto
  from Cons.IH [of calls' ddl' err'] obtain a2 where
    a2: "fst (foldl (listServices_service isLB c net nm) (calls', ddl', err') sl)
           = calls' @ map TaskListCall a2" by blast
  from st a1 a2 have "fst (foldl (listServices_service isLB c net nm) (calls, ddl, err) (s # sl))
     = calls @ map TaskListCall (a1 @ a2)" by simp
  then show ?case by blast
qed

lemma listServices_service_records:
  assumes "d \<in> set (fst (snd (listServices_service isLB c net nm st s)))"
  shows "d \<in> set (fst (snd st))
     \<or> (isLB (parseService net s nm) \<and> d = parseService net s nm
          \<and> len_map (Networks (NetworkSettings d)) > 0)
     \<or> (\<not> isLB (parseService net s nm)
          \<and> d \<in> set (fst (snd (listTasks c net (Service_ID s) (parseService net s nm) nm
                                  (Spec_Mode_Global s \<noteq> None)))))"
  using assms
  by (cases st) (auto simp: listServices_service_def Let_def split: if_splits prod.splits)

lemma listServices_fold_records:
  assumes "d \<in> set (fst (snd (foldl (listServices_service isLB c net nm) st sl)))"
  shows "d \<in> set (fst (snd st))
     \<or> (\<exists>s. s \<in> set sl \<and>
          ((isLB (parseService net s nm) \<and> d = parseService net s nm
              \<and> len_map (Networks (NetworkSettings d)) > 0)
           \<or> (\<not> isLB (parseService net s nm)
              \<and> d \<in> set (fst (snd (listTasks c net (Service_ID s) (parseService net s nm) nm
                                  (Spec_Mode_Global s \<noteq> None)))))))"
  using assms
proof (induction sl arbitrary: st)
  case Nil
  then show ?case by simp
next
  case (Cons s sl)
  from Cons.prems have "d \<in> set (fst (snd (foldl (listServices_service isLB c net nm)
      (listServices_service isLB c net nm st s) sl)))" by simp
  from Cons.IH [OF this] listServices_service_records [of d isLB c net nm st s]
  show ?case by auto
qed

lemma listServices_records:
  assumes "d \<in> set (fst (snd (listServices isLB c net)))"
  shows "\<exists>serviceList serverVersion networkList s.
           ServiceList c = Inr serviceList \<and> ServerVersion c = Inr serverVersion
           \<and> NetworkList c
                (if GreaterThanOrEqualTo (APIVersion serverVersion) ''1.29''
                 then [(''scope'', ''swarm'')] else [(''driver'', ''overlay'')]) = Inr networkList
           \<and> s \<in> set serviceList
           \<and> ((isLB (parseService net s (listServices_networkMap networkList))
                 \<and> d = parseService net s (listServices_networkMap networkList)
                 \<and> len_map (Networks (NetworkSettings d)) > 0)
              \<or> (\<not> isLB (parseService net s (listServices_networkMap networkList))
                 \<and> d \<in> set (fst (snd (listTasks c net (Service_ID s)
                       (parseService net s (listServices_networkMap networkList))
                       (listServices_networkMap networkList) (Spec_Mode_Global s \<noteq> None))))))"
proof (cases "ServiceList c")
  case (Inl e)
  with assms show ?thesis by (simp add: listServices_def)
next
  case sl: (Inr serviceList)
  show ?thesis
  proof (cases "ServerVersion c")
    case (Inl e)
    with assms sl show ?thesis by (simp add: listServices_def)
  next
    case sv: (Inr serverVersion)
    let ?args = "if GreaterThanOrEqualTo (APIVersion serverVersion) ''1.29''
                 then [(''scope'', ''swarm'')] else [(''driver'', ''overlay'')]"
    show ?thesis
    proof (cases "NetworkList c ?args")
      case (Inl e)
      with assms sl sv show ?thesis
        by (simp add: listServices_def NewArgs_def Add_def Let_def split: if_splits)
    next
      case nl: (Inr networkList)
      from assms sl sv nl
      have "d \<in> set (fst (snd (foldl
              (listServices_service isLB c net (listServices_networkMap networkList))
              ([ServiceListCall, ServerVersionCall, NetworkListCall ?args], [], None)
              serviceList)))"
        by (simp add: listServices_def NewArgs_def Add_def Let_def split: if_splits)
      from listServices_fold_records [OF this] sl sv nl show ?thesis
        by (simp del: split_paired_Ex)
    qed
  qed
qed

subsection \<open>No empty address from the swarm\<close>

lemma update_entries:
  "(k', v') \<in> set (AList.update k v al) \<Longrightarrow> (k', v') = (k, v) \<or> (k', v') \<in> set al"
  by (induction al) (auto split: if_splits)

lemma len_map_pos: "(len_map m > 0) = (\<exists>al. m = Some al \<and> al \<noteq> [])"
  by (cases m) (auto simp: len_map_def)

lemma IP_String_nonempty:
  assumes "\<forall>s a. ParseCIDR net s = Some a \<longrightarrow> IP_text net a \<noteq> []"
  shows "IP_String net (ParseCIDR net s) \<noteq> []"
  using assms by (cases "ParseCIDR net s") (auto simp: IP_String_def)

lemma parseService_vip_addrs:
  assumes "\<forall>s a. ParseCIDR net s = Some a \<longrightarrow> IP_text net a \<noteq> []"
    and "\<forall>e \<in> set networks. nd_Addr (snd e) \<noteq> []"
  shows "\<forall>e \<in> set (parseService_vip net nm networks v). nd_Addr (snd e) \<noteq> []"
proof
  fix e assume e: "e \<in> set (parseService_vip net nm networks v)"
  obtain k x where kx: "e = (k, x)" by (cases e)
  show "nd_Addr (snd e) \<noteq> []"
  proof (cases "nm (vip_NetworkID v)")
    case None
    with e assms(2) show ?thesis by (simp add: parseService_vip_def)
  next
    case (Some nw)
    show ?thesis
    proof (cases "length (vip_Addr v) > 0")
      case False
      with e Some assms(2) show ?thesis by (simp add: parseService_vip_def)
    next
      case True
      with e Some kx have "(k, x) \<in> set (AList.update (nr_Name nw)
          \<lparr>nd_Name = nr_Name nw, nd_Addr = IP_String net (ParseCIDR net (vip_Addr v)),
           nd_Port = 0, nd_Protocol = [], nd_ID = vip_NetworkID v\<rparr> networks)"
        by (simp add: parseService_vip_def Let_def)
      from update_entries [OF this] assms(2) kx IP_String_nonempty [OF assms(1)]
      show ?thesis by auto
    qed
  qed
qed

lemma parseService_vips_addrs:
  assumes "\<forall>s a. ParseCIDR net s = Some a \<longrightarrow> IP_text net a \<noteq> []"
    and "\<forall>e \<in> set networks. nd_Addr (snd e) \<noteq> []"
  shows "\<forall>e \<in> set (foldl (parseService_vip net nm) networks vs). nd_Addr (snd e) \<noteq> []"
  using assms(2)
proof (induction vs arbitrary: networks)
  case Nil
  then show ?case by simp
next
  case (Cons v vs)
  from parseService_vip_addrs [OF assms(1) Cons.prems]
  have "\<forall>e \<in> set (parseService_vip net nm networks v). nd_Addr (snd e) \<noteq> []" .
  from Cons.IH [OF this] show ?case by simp
qed

lemma parseService_addrs:
  assumes "\<forall>s a. ParseCIDR net s = Some a \<longrightarrow> IP_text net a \<noteq> []"
    and "Networks (NetworkSettings (parseService net s nm)) = Some networks"
    and "e \<in> set networks"
  shows "nd_Addr (snd e) \<noteq> []"
proof -
  from assms(2) have "networks = foldl (parseService_vip net nm) [] (Endpoint_VirtualIPs s)"
    by (auto simp: parseService_def networkSettings_zero_def Let_def
        split: option.splits if_splits)
  with parseService_vips_addrs [of net "[]" nm "Endpoint_VirtualIPs s", OF assms(1)] assms(3)
  show ?thesis by simp
qed

lemma parseTasks_address_addrs:
  assumes "\<forall>s a. ParseCIDR net s = Some a \<longrightarrow> IP_text net a \<noteq> []"
    and "\<forall>e \<in> set networks. nd_Addr (snd e) \<noteq> []"
  shows "\<forall>e \<in> set (parseTasks_address net nw att networks addr). nd_Addr (snd e) \<noteq> []"
proof
  fix e assume e: "e \<in> set (parseTasks_address net nw att networks addr)"
  obtain k x where kx: "e = (k, x)" by (cases e)
  with e have "(k, x) \<in> set (AList.update (nr_Name nw)
          \<lparr>nd_Name = nr_Name nw, nd_Addr = IP_String net (ParseCIDR net addr),
           nd_Port = 0, nd_Protocol = [], nd_ID = Network_ID att\<rparr> networks)"
    by (simp add: parseTasks_address_def Let_def)
  from update_entries [OF this] assms(2) kx IP_String_nonempty [OF assms(1)]
  show "nd_Addr (snd e) \<noteq> []" by auto
qed

lemma parseTasks_addresses_addrs:
  assumes "\<forall>s a. ParseCIDR net s = Some a \<longrightarrow> IP_text net a \<noteq> []"
    and "\<forall>e \<in> set networks. nd_Addr (snd e) \<noteq> []"
  shows "\<forall>e \<in> set (foldl (parseTasks_address net nw att) networks addrs).
           nd_Addr (snd e) \<noteq> []"
  using assms(2)
proof (induction addrs arbitrary: networks)
  case Nil
  then show ?case by simp
next
  case (Cons a addrs)
  from parseTasks_address_addrs [OF assms(1) Cons.prems]
  have "\<forall>e \<in> set (parseTasks_address net nw att networks a). nd_Addr (snd e) \<noteq> []" .
  from Cons.IH [OF this] show ?case by simp
qed

lemma parseTasks_attachment_addrs:
  assumes "\<forall>s a. ParseCIDR net s = Some a \<longrightarrow> IP_text net a \<noteq> []"
    and "\<forall>e \<in> set networks. nd_Addr (snd e) \<noteq> []"
  shows "\<forall>e \<in> set (parseTasks_attachment net nm networks att). nd_Addr (snd e) \<noteq> []"
proof (cases "nm (Network_ID att)")
  case None
  with assms(2) show ?thesis by (simp add: parseTasks_attachment_def)
next
  case (Some nw)
  from parseTasks_addresses_addrs [of net networks nw att "Addresses att", OF assms] Some assms(2)
  show ?thesis by (simp add: parseTasks_attachment_def)
qed

lemma parseTasks_attachments_addrs:
  assumes "\<forall>s a. ParseCIDR net s = Some a \<longrightarrow> IP_text net a \<noteq> []"
    and "\<forall>e \<in> set networks. nd_Addr (snd e) \<noteq> []"
  shows "\<forall>e \<in> set (foldl (parseTasks_attachment net nm) networks atts).
           nd_Addr (snd e) \<noteq> []"
  using assms(2)
proof (induction atts arbitrary: networks)
  case Nil
  then show ?case by simp
next
  case (Cons a atts)
  from parseTasks_attachment_addrs [OF assms(1) Cons.prems]
  have "\<forall>e \<in> set (parseTasks_attachment net nm networks a). nd_Addr (snd e) \<noteq> []" .
  from Cons.IH [OF this] show ?case by simp
qed

lemma parseTasks_addrs:
  assumes "\<forall>s a. ParseCIDR net s = Some a \<longrightarrow> IP_text net a \<noteq> []"
    and "Networks (NetworkSettings (parseTasks net t sdd nm g)) = Some networks"
    and "e \<in> set networks"
  shows "nd_Addr (snd e) \<noteq> []"
proof -
  from assms(2) obtain atts where "NetworksAttachments t = Some atts"
    "networks = foldl (parseTasks_attachment net nm) [] atts"
    by (auto simp: parseTasks_def networkSettings_zero_def Let_def
        split: option.splits if_splits)
  with parseTasks_attachments_addrs [of net "[]" nm atts, OF assms(1)] assms(3)
  show ?thesis by simp
qed

subsection \<open>The standalone handler\<close>

lemma HasPrefix_iff: "HasPrefix s pre = (\<exists>suffix. s = pre @ suffix)"
proof
  assume "HasPrefix s pre"
  then have "s = pre @ drop (length pre) s"
    by (metis HasPrefix_def append_take_drop_id)
  then show "\<exists>suffix. s = pre @ suffix" ..
next
  assume "\<exists>suffix. s = pre @ suffix"
  then show "HasPrefix s pre" by (auto simp: HasPrefix_def)
qed

lemma listContainers_calls:
  "\<exists>ids. fst (listContainers c) = ContainerListCall # map ContainerInspectCall ids"
proof (cases "ContainerList c")
  case (Inl e)
  then have "fst (listContainers c) = ContainerListCall # map ContainerInspectCall []"
    by (simp add: listContainers_def)
  then show ?thesis by blast
next
  case (Inr cl)
  then have "fst (listContainers c) = fst (listContainers_loop c cl ([ContainerListCall], []))"
    by (simp add: listContainers_def split: prod.splits)
  then have "fst (listContainers c) = ContainerListCall # map ContainerInspectCall (map Container_ID cl)"
    by (simp add: listContainers_loop_calls comp_def)
  then show ?thesis by blast
qed

lemma startStopHandle_starts:
  "\<exists>more. startStopHandle bc c m = Call ContainerListCall # more"
proof -
  obtain calls containers err where lc: "listContainers c = (calls, containers, err)"
    by (cases "listContainers c") auto
  with listContainers_calls [of c] obtain ids where
    "calls = ContainerListCall # map ContainerInspectCall ids" by auto
  with lc show ?thesis
    by (simp add: startStopHandle_def split: option.splits)
qed

lemma startStopHandle_lists_once:
  "length (filter (\<lambda>e. e = Call ContainerListCall) (startStopHandle bc c m)) = 1"
proof -
  obtain calls containers err where lc: "listContainers c = (calls, containers, err)"
    by (cases "listContainers c") auto
  with listContainers_calls [of c] obtain ids where
    calls: "calls = ContainerListCall # map ContainerInspectCall ids" by auto
  have "filter (\<lambda>e. e = Call ContainerListCall) (map Call (map ContainerInspectCall ids)) = []"
    by (induction ids) simp_all
  with lc calls show ?thesis
    by (simp add: startStopHandle_def split: option.splits)
qed

subsection \<open>Networks that stay in the map, records that stay in the list\<close>

lemma update_key: "k \<in> fst ` set (AList.update k v al)"
  by (simp add: dom_update)

lemma update_keeps_key: "k' \<in> fst ` set al \<Longrightarrow> k' \<in> fst ` set (AList.update k v al)"
  by (simp add: dom_update)

lemma update_lookup: "map_of (AList.update k v al) k = Some v"
  by (simp add: update_conv')

lemma parseService_vip_keeps_key:
  "k \<in> fst ` set networks \<Longrightarrow> k \<in> fst ` set (parseService_vip net nm networks v)"
  by (auto simp: parseService_vip_def Let_def dom_update split: option.splits)

lemma parseService_vips_keep_key:
  "k \<in> fst ` set networks \<Longrightarrow> k \<in> fst ` set (foldl (parseService_vip net nm) networks vs)"
proof (induction vs arbitrary: networks)
  case Nil
  then show ?case by simp
next
  case (Cons v vs)
  from Cons.IH [OF parseService_vip_keeps_key [OF Cons.prems]] show ?case by simp
qed

lemma parseService_vip_adds_key:
  assumes "nm (vip_NetworkID v) = Some nw" "vip_Addr v \<noteq> []"
  shows "nr_Name nw \<in> fst ` set (parseService_vip net nm networks v)"
  using assms by (simp add: parseService_vip_def Let_def dom_update)

lemma parseService_vips_add_key:
  assumes "v \<in> set vs" "nm (vip_NetworkID v) = Some nw" "vip_Addr v \<noteq> []"
  shows "nr_Name nw \<in> fst ` set (foldl (parseService_vip net nm) networks vs)"
  using assms(1)
proof (induction vs arbitrary: networks)
  case Nil
  then show ?case by simp
next
  case (Cons x vs)
  show ?case
  proof (cases "x = v")
    case True
    from parseService_vips_keep_key [OF parseService_vip_adds_key [where nm = nm and v = v and nw = nw, OF assms(2,3)]] True
    show ?thesis by simp
  next
    case False
    with Cons.prems have "v \<in> set vs" by simp
    from Cons.IH [OF this] show ?thesis by simp
  qed
qed

lemma parseTasks_address_adds_key:
  "nr_Name nw \<in> fst ` set (parseTasks_address net nw att networks addr)"
  by (simp add: parseTasks_address_def Let_def dom_update)

lemma parseTasks_address_keeps_key:
  "k \<in> fst ` set networks \<Longrightarrow> k \<in> fst ` set (parseTasks_address net nw att networks addr)"
  by (simp add: parseTasks_address_def Let_def dom_update)

lemma parseTasks_addresses_keep_key:
  "k \<in> fst ` set networks
     \<Longrightarrow> k \<in> fst ` set (foldl (parseTasks_address net nw att) networks addrs)"
proof (induction addrs arbitrary: networks)
  case Nil
  then show ?case by simp
next
  case (Cons a addrs)
  from Cons.IH [OF parseTasks_address_keeps_key [OF Cons.prems]] show ?case by simp
qed

lemma parseTasks_attachment_keeps_key:
  "k \<in> fst ` set networks \<Longrightarrow> k \<in> fst ` set (parseTasks_attachment net nm networks att)"
  by (auto simp: parseTasks_attachment_def parseTasks_addresses_keep_key split: option.splits)

lemma parseTasks_attachments_keep_key:
  "k \<in> fst ` set networks
     \<Longrightarrow> k \<in> fst ` set (foldl (parseTasks_attachment net nm) networks atts)"
proof (induction atts arbitrary: networks)
  case Nil
  then show ?case by simp
next
  case (Cons a atts)
  from Cons.IH [OF parseTasks_attachment_keeps_key [OF Cons.prems]] show ?case by simp
qed

lemma parseTasks_attachment_adds_key:
  assumes "nm (Network_ID att) = Some nw" "Addresses att \<noteq> []"
  shows "nr_Name nw \<in> fst ` set (parseTasks_attachment net nm networks att)"
proof -
  from assms(2) obtain a addrs where addrs: "Addresses att = a # addrs"
    by (cases "Addresses att") auto
  from parseTasks_addresses_keep_key [OF parseTasks_address_adds_key]
  have "nr_Name nw \<in> fst ` set (foldl (parseTasks_address net nw att)
          (parseTasks_address net nw att networks a) addrs)" .
  with assms(1) addrs show ?thesis by (simp add: parseTasks_attachment_def)
qed

lemma parseTasks_attachments_add_key:
  assumes "att \<in> set atts" "nm (Network_ID att) = Some nw" "Addresses att \<noteq> []"
  shows "nr_Name nw \<in> fst ` set (foldl (parseTasks_attachment net nm) networks atts)"
  using assms(1)
proof (induction atts arbitrary: networks)
  case Nil
  then show ?case by simp
next
  case (Cons x atts)
  show ?case
  proof (cases "x = att")
    case True
    from parseTasks_attachments_keep_key [OF parseTasks_attachment_adds_key [where nm = nm and att = att and nw = nw, OF assms(2,3)]] True
    show ?thesis by simp
  next
    case False
    with Cons.prems have "att \<in> set atts" by simp
    from Cons.IH [OF this] show ?thesis by simp
  qed
qed

lemma len_map_key: "k \<in> fst ` set al \<Longrightarrow> len_map (Some al) > 0"
  by (cases al) (auto simp: len_map_def)

lemma listTasks_includes:
  assumes "TaskList c [(''service'', sid), (''desired-state'', ''running'')] = Inr taskList"
    and "t \<in> set taskList" "Status_State t = ''running''"
    and "len_map (Networks (NetworkSettings (parseTasks net t sdd nm g))) > 0"
  shows "parseTasks net t sdd nm g \<in> set (fst (snd (listTasks c net sid sdd nm g)))"
  using assms
  by (simp add: listTasks_def listTasks_fold NewArgs_def Add_def TaskStateRunning_def Let_def)

lemma listServices_service_keeps:
  "d \<in> set (fst (snd st)) \<Longrightarrow> d \<in> set (fst (snd (listServices_service isLB c net nm st s)))"
  by (cases st) (auto simp: listServices_service_def Let_def split: prod.splits)

lemma listServices_fold_keeps:
  "d \<in> set (fst (snd st))
     \<Longrightarrow> d \<in> set (fst (snd (foldl (listServices_service isLB c net nm) st sl)))"
proof (induction sl arbitrary: st)
  case Nil
  then show ?case by simp
next
  case (Cons s sl)
  from Cons.IH [OF listServices_service_keeps [OF Cons.prems]] show ?case by simp
qed

lemma listServices_service_includes:
  assumes "isLB (parseService net s nm)"
    and "len_map (Networks (NetworkSettings (parseService net s nm))) > 0"
  shows "parseService net s nm \<in> set (fst (snd (listServices_service isLB c net nm st s)))"
  using assms by (cases st) (simp add: listServices_service_def Let_def)

lemma listServices_fold_includes:
  assumes "s \<in> set sl" "isLB (parseService net s nm)"
    and "len_map (Networks (NetworkSettings (parseService net s nm))) > 0"
  shows "parseService net s nm
           \<in> set (fst (snd (foldl (listServices_service isLB c net nm) st sl)))"
  using assms(1)
proof (induction sl arbitrary: st)
  case Nil
  then show ?case by simp
next
  case (Cons x sl)
  show ?case
  proof (cases "x = s")
    case True
    from listServices_fold_keeps [OF listServices_service_includes [where isLB = isLB and net = net and s = s and nm = nm, OF assms(2,3)]] True
    show ?thesis by simp
  next
    case False
    with Cons.prems have "s \<in> set sl" by simp
    from Cons.IH [OF this] show ?thesis by simp
  qed
qed

lemma listServices_includes:
  assumes "ServiceList c = Inr serviceList" "ServerVersion c = Inr serverVersion"
    and "NetworkList c
           (if GreaterThanOrEqualTo (APIVersion serverVersion) ''1.29''
            then [(''scope'', ''swarm'')] else [(''driver'', ''overlay'')]) = Inr networkList"
    and "s \<in> set serviceList"
    and "isLB (parseService net s (listServices_networkMap networkList))"
    and "len_map (Networks (NetworkSettings
           (parseService net s (listServices_networkMap networkList)))) > 0"
  shows "parseService net s (listServices_networkMap networkList)
           \<in> set (fst (snd (listServices isLB c net)))"
proof -
  let ?args = "if GreaterThanOrEqualTo (APIVersion serverVersion) ''1.29''
                 then [(''scope'', ''swarm'')] else [(''driver'', ''overlay'')]"
  from assms(1-3) have "listServices isLB c net =
      foldl (listServices_service isLB c net (listServices_networkMap networkList))
        ([ServiceListCall, ServerVersionCall, NetworkListCall ?args], [], None) serviceList"
    by (simp add: listServices_def NewArgs_def Add_def Let_def split: if_splits)
  with listServices_fold_includes [where isLB = isLB and net = net and s = s and sl = serviceList
      and nm = "listServices_networkMap networkList", OF assms(4-6)] show ?thesis by simp
qed

subsection \<open>Versions of two decimal numbers\<close>

lemma digit_cases:
  "d < (10::nat) \<Longrightarrow>
     d = 0 \<or> d = 1 \<or> d = 2 \<or> d = 3 \<or> d = 4 \<or> d = 5 \<or> d = 6 \<or> d = 7 \<or> d = 8 \<or> d = 9"
  by arith

lemma digit_char:
  assumes "d < (10::nat)"
  shows "int (of_char (''0123456789'' ! d)) - 48 = int d"
    and "is_digit (''0123456789'' ! d)"
    and "''0123456789'' ! d \<noteq> CHR ''.''"
    and "''0123456789'' ! d \<noteq> CHR ''-''"
    and "''0123456789'' ! d \<noteq> CHR ''+''"
  using digit_cases [OF assms] by (auto simp: is_digit_def)

lemma digits_value_snoc:
  "digits_value (ds @ [ch]) = digits_value ds * 10 + (int (of_char ch) - 48)"
  by (simp add: digits_value_def)

lemma decimal_nonempty: "decimal n \<noteq> []"
  by (subst decimal.simps) simp

lemma decimal_digits: "list_all is_digit (decimal n)"
proof (induction n rule: decimal.induct)
  case (1 n)
  show ?case
  proof (cases "n < 10")
    case True
    then show ?thesis by (subst decimal.simps) (simp add: digit_char)
  next
    case False
    with 1 show ?thesis by (subst decimal.simps) (simp add: digit_char)
  qed
qed

lemma decimal_value: "digits_value (decimal n) = int n"
proof (induction n rule: decimal.induct)
  case (1 n)
  show ?case
  proof (cases "n < 10")
    case True
    then show ?thesis
      by (subst decimal.simps) (simp add: digits_value_def digit_char)
  next
    case False
    with 1 have "digits_value (decimal (n div 10)) = int (n div 10)" by simp
    with False show ?thesis
      by (subst decimal.simps) (simp add: digits_value_snoc digit_char zdiv_int zmod_int)
  qed
qed

lemma decimal_chars:
  "c \<in> set (decimal n) \<Longrightarrow> c \<noteq> CHR ''.'' \<and> c \<noteq> CHR ''-'' \<and> c \<noteq> CHR ''+''"
proof (induction n rule: decimal.induct)
  case (1 n)
  show ?case
  proof (cases "n < 10")
    case True
    with "1.prems" show ?thesis
      by (subst (asm) decimal.simps) (auto simp: digit_char)
  next
    case False
    with 1 show ?thesis
      by (subst (asm) (2) decimal.simps) (auto simp: digit_char)
  qed
qed

lemma Atoi_decimal:
  assumes "n < 2 ^ 63"
  shows "Atoi (decimal n) = int n"
proof -
  obtain c cs where d: "decimal n = c # cs"
    using decimal_nonempty [of n] by (cases "decimal n") auto
  then have "c \<in> set (decimal n)" by simp
  from decimal_chars [OF this] have c: "c \<noteq> CHR ''-''" "c \<noteq> CHR ''+''" by simp_all
  from assms have "int n < 2 ^ 63" by (metis of_nat_less_iff of_nat_numeral of_nat_power)
  with c d decimal_digits [of n] decimal_value [of n] show ?thesis
    by (simp add: Atoi_def Let_def)
qed

lemma Split_no_sep: "sep \<notin> set s \<Longrightarrow> Split s sep = [s]"
  by (induction s) auto

lemma Split_at_sep: "sep \<notin> set s \<Longrightarrow> Split (s @ sep # rest) sep = s # Split rest sep"
  by (induction s) auto

lemma Split_decimals:
  "Split (decimal major @ CHR ''.'' # decimal minor) CHR ''.''
     = [decimal major, decimal minor]"
proof -
  have a: "CHR ''.'' \<notin> set (decimal major)" using decimal_chars by blast
  have b: "CHR ''.'' \<notin> set (decimal minor)" using decimal_chars by blast
  from Split_at_sep [OF a, of "decimal minor"] Split_no_sep [OF b] show ?thesis by simp
qed

lemma GreaterThanOrEqualTo_1_29:
  assumes "major < 2 ^ 63" "minor < 2 ^ 63"
  shows "GreaterThanOrEqualTo (decimal major @ ''.'' @ decimal minor) ''1.29''
           = (major > 1 \<or> (major = 1 \<and> minor \<ge> 29))"
proof -
  have other: "Split ''1.29'' CHR ''.'' = [''1'', ''29'']" by simp
  have one: "Atoi ''1'' = 1" by code_simp
  have twentynine: "Atoi ''29'' = 29" by code_simp
  from assms show ?thesis
    by (auto simp: GreaterThanOrEqualTo_def compare_def Split_decimals other one twentynine
        Atoi_decimal)
qed

section \<open>The claims\<close>



text \<open>
  C7. The filter of the network list is chosen from the API version of the server
  alone. When the services and the version of the server have been read,
  \<open>listServices\<close> asks the daemon for the networks exactly once, as its third call,
  and every later call lists tasks: the filter is \<open>scope=swarm\<close> when
  \<open>versions.GreaterThanOrEqualTo\<close> holds of the API version and \<open>1.29\<close>, and
  \<open>driver=overlay\<close> otherwise. For an API version written as two decimal numbers
  with a dot between them, that is \<open>scope=swarm\<close> from \<open>1.29\<close> on (\<open>1.29\<close>,
  \<open>1.30\<close>, \<open>2.0\<close>) and \<open>driver=overlay\<close> below (\<open>1.28\<close>, \<open>0.99\<close>).
\<close>

theorem network_filter_by_api_version:
  assumes "ServiceList c = Inr serviceList" "ServerVersion c = Inr serverVersion"
  shows "(\<exists>argss. fst (listServices isLB c net) =
           [ServiceListCall, ServerVersionCall,
            NetworkListCall
              (if GreaterThanOrEqualTo (APIVersion serverVersion) ''1.29''
               then [(''scope'', ''swarm'')] else [(''driver'', ''overlay'')])]
           @ map TaskListCall argss)
     \<and> (major < 2 ^ 63 \<and> minor < 2 ^ 63
          \<and> APIVersion serverVersion = decimal major @ ''.'' @ decimal minor \<longrightarrow>
        (\<exists>argss. fst (listServices isLB c net) =
           [ServiceListCall, ServerVersionCall,
            NetworkListCall
              (if major > 1 \<or> (major = 1 \<and> minor \<ge> 29)
               then [(''scope'', ''swarm'')] else [(''driver'', ''overlay'')])]
           @ map TaskListCall argss))"
proof -
  let ?args = "if GreaterThanOrEqualTo (APIVersion serverVersion) ''1.29''
                 then [(''scope'', ''swarm'')] else [(''driver'', ''overlay'')]"
  have calls: "\<exists>argss. fst (listServices isLB c net) =
      [ServiceListCall, ServerVersionCall, NetworkListCall ?args] @ map TaskListCall argss"
  proof (cases "NetworkList c ?args")
    case (Inl e)
    with assms have "fst (listServices isLB c net) =
        [ServiceListCall, ServerVersionCall, NetworkListCall ?args] @ map TaskListCall []"
      by (simp add: listServices_def NewArgs_def Add_def Let_def split: if_splits)
    then show ?thesis by blast
  next
    case (Inr networkList)
    with assms have "fst (listServices isLB c net) =
        fst (foldl (listServices_service isLB c net (listServices_networkMap networkList))
              ([ServiceListCall, ServerVersionCall, NetworkListCall ?args], [], None)
              serviceList)"
      by (simp add: listServices_def NewArgs_def Add_def Let_def split: if_splits)
    with listServices_fold_calls [of isLB c net "listServices_networkMap networkList"
        "[ServiceListCall, ServerVersionCall, NetworkListCall ?args]" "[]" None serviceList]
    show ?thesis by simp
  qed
  show ?thesis
  proof (intro conjI impI)
    show "\<exists>argss. fst (listServices isLB c net) =
      [ServiceListCall, ServerVersionCall, NetworkListCall ?args] @ map TaskListCall argss"
      by (rule calls)
  next
    assume v: "major < 2 ^ 63 \<and> minor < 2 ^ 63
          \<and> APIVersion serverVersion = decimal major @ ''.'' @ decimal minor"
    then have "GreaterThanOrEqualTo (APIVersion serverVersion) ''1.29''
        = (major > 1 \<or> (major = 1 \<and> minor \<ge> 29))"
      using GreaterThanOrEqualTo_1_29 [of major minor] by simp
    with calls show "\<exists>argss. fst (listServices isLB c net) =
           [ServiceListCall, ServerVersionCall,
            NetworkListCall
              (if major > 1 \<or> (major = 1 \<and> minor \<ge> 29)
               then [(''scope'', ''swarm'')] else [(''driver'', ''overlay'')])]
           @ map TaskListCall argss"
      by simp
  qed
qed

text \<open>
  On the example daemon with API version \<open>1.30\<close> the filter is \<open>scope=swarm\<close>, with
  API version \<open>1.28\<close> it is \<open>driver=overlay\<close>.
\<close>

theorem network_filter_by_api_version_witness:
  "ServiceList (example_client ''1.30'' [service_api]) = Inr [service_api]
   \<and> ServerVersion (example_client ''1.30'' [service_api])
       = Inr \<lparr>Version_Version = ''17.06'', APIVersion = ''1.30''\<rparr>
   \<and> GreaterThanOrEqualTo ''1.30'' ''1.29''
   \<and> ''1.30'' = decimal 1 @ ''.'' @ decimal 30
   \<and> (\<exists>argss. fst (listServices example_isBackendLBSwarm
                      (example_client ''1.30'' [service_api]) example_net) =
         [ServiceListCall, ServerVersionCall, NetworkListCall [(''scope'', ''swarm'')]]
         @ map TaskListCall argss)
   \<and> ServiceList (example_client ''1.28'' [service_api]) = Inr [service_api]
   \<and> ServerVersion (example_client ''1.28'' [service_api])
       = Inr \<lparr>Version_Version = ''17.06'', APIVersion = ''1.28''\<rparr>
   \<and> \<not> GreaterThanOrEqualTo ''1.28'' ''1.29''
   \<and> ''1.28'' = decimal 1 @ ''.'' @ decimal 28
   \<and> (\<exists>argss. fst (listServices example_isBackendLBSwarm
                      (example_client ''1.28'' [service_api]) example_net) =
         [ServiceListCall, ServerVersionCall, NetworkListCall [(''driver'', ''overlay'')]]
         @ map TaskListCall argss)"
proof -
  have new: "GreaterThanOrEqualTo ''1.30'' ''1.29''" by code_simp
  have old: "\<not> GreaterThanOrEqualTo ''1.28'' ''1.29''" by code_simp
  have new_text: "''1.30'' = decimal 1 @ ''.'' @ decimal 30" by code_simp
  have old_text: "''1.28'' = decimal 1 @ ''.'' @ decimal 28" by code_simp
  have sl: "ServiceList (example_client v [service_api]) = Inr [service_api]" for v
    by (simp add: example_client_def)
  have sv: "ServerVersion (example_client v [service_api])
       = Inr \<lparr>Version_Version = ''17.06'', APIVersion = v\<rparr>" for v
    by (simp add: example_client_def)
  have bound: "(1::nat) < 2 ^ 63" "(30::nat) < 2 ^ 63" "(28::nat) < 2 ^ 63" by simp_all
  from network_filter_by_api_version [OF sl [of "''1.30''"] sv [of "''1.30''"],
      where major = 1 and minor = 30 and isLB = example_isBackendLBSwarm and net = example_net] new_text bound
  have a: "\<exists>argss. fst (listServices example_isBackendLBSwarm
                      (example_client ''1.30'' [service_api]) example_net) =
         [ServiceListCall, ServerVersionCall, NetworkListCall [(''scope'', ''swarm'')]]
         @ map TaskListCall argss"
    by simp
  from network_filter_by_api_version [OF sl [of "''1.28''"] sv [of "''1.28''"],
      where major = 1 and minor = 28 and isLB = example_isBackendLBSwarm and net = example_net] old_text bound
  have b: "\<exists>argss. fst (listServices example_isBackendLBSwarm
                      (example_client ''1.28'' [service_api]) example_net) =
         [ServiceListCall, ServerVersionCall, NetworkListCall [(''driver'', ''overlay'')]]
         @ map TaskListCall argss"
    by simp
  from a b new old new_text old_text sl sv show ?thesis by blast
qed

text \<open>
  C6. The name of a task's record. \<open>parseTasks\<close> names the record by the name of the
  service, a dot and the decimal slot of the task when the service is not global, and
  by the name of the service, a dot and the ID of the task when it is global (which is
  the slot form only if the ID happens to be the slot's digits). Every record that
  \<open>listServices\<close> returns is either the record of a service itself, taken on the
  \<open>isBackendLBSwarm\<close> branch, or the record of a running task of a listed service
  \<open>s\<close>, named in the slot form when \<open>s.Spec.Mode.Global\<close> is nil and in the
  task ID form otherwise.
\<close>

theorem task_record_names:
  "Name (parseTasks net task serviceDockerData networkMap False)
     = Name serviceDockerData @ ''.'' @ Itoa (Slot task)
   \<and> Name (parseTasks net task serviceDockerData networkMap True)
     = Name serviceDockerData @ ''.'' @ Task_ID task
   \<and> (Task_ID task \<noteq> Itoa (Slot task) \<longrightarrow>
        Name (parseTasks net task serviceDockerData networkMap True)
          \<noteq> Name serviceDockerData @ ''.'' @ Itoa (Slot task))
   \<and> (d \<in> set (fst (snd (listServices isLB c net))) \<longrightarrow>
        (\<exists>serviceList s. ServiceList c = Inr serviceList \<and> s \<in> set serviceList
           \<and> ((\<exists>networkMap'. isLB (parseService net s networkMap')
                   \<and> d = parseService net s networkMap')
              \<or> (\<exists>taskList t.
                    TaskList c [(''service'', Service_ID s), (''desired-state'', ''running'')]
                      = Inr taskList
                    \<and> t \<in> set taskList \<and> Status_State t = ''running''
                    \<and> Name d = Spec_Name s @ ''.'' @
                         (case Spec_Mode_Global s of
                            None \<Rightarrow> Itoa (Slot t)
                          | Some g \<Rightarrow> Task_ID t)))))"
proof (intro conjI impI)
  show "Name (parseTasks net task serviceDockerData networkMap False)
     = Name serviceDockerData @ ''.'' @ Itoa (Slot task)"
    by (simp add: parseTasks_def Let_def split: option.splits)
  show "Name (parseTasks net task serviceDockerData networkMap True)
     = Name serviceDockerData @ ''.'' @ Task_ID task"
    by (simp add: parseTasks_def Let_def split: option.splits)
  then show "Name (parseTasks net task serviceDockerData networkMap True)
          \<noteq> Name serviceDockerData @ ''.'' @ Itoa (Slot task)"
    if "Task_ID task \<noteq> Itoa (Slot task)"
    using that by simp
next
  assume d: "d \<in> set (fst (snd (listServices isLB c net)))"
  from listServices_records [OF d]
  obtain serviceList networkList s where
    sl: "ServiceList c = Inr serviceList" "s \<in> set serviceList" and
    alt: "(isLB (parseService net s (listServices_networkMap networkList))
             \<and> d = parseService net s (listServices_networkMap networkList))
          \<or> (\<not> isLB (parseService net s (listServices_networkMap networkList))
             \<and> d \<in> set (fst (snd (listTasks c net (Service_ID s)
                   (parseService net s (listServices_networkMap networkList))
                   (listServices_networkMap networkList) (Spec_Mode_Global s \<noteq> None)))))"
    by blast
  let ?nm = "listServices_networkMap networkList"
  have svc_name: "Name (parseService net s ?nm) = Spec_Name s"
    by (simp add: parseService_def Let_def split: option.splits)
  from alt show "\<exists>serviceList s. ServiceList c = Inr serviceList \<and> s \<in> set serviceList
           \<and> ((\<exists>networkMap'. isLB (parseService net s networkMap')
                   \<and> d = parseService net s networkMap')
              \<or> (\<exists>taskList t.
                    TaskList c [(''service'', Service_ID s), (''desired-state'', ''running'')]
                      = Inr taskList
                    \<and> t \<in> set taskList \<and> Status_State t = ''running''
                    \<and> Name d = Spec_Name s @ ''.'' @
                         (case Spec_Mode_Global s of
                            None \<Rightarrow> Itoa (Slot t)
                          | Some g \<Rightarrow> Task_ID t)))"
  proof
    assume "isLB (parseService net s ?nm) \<and> d = parseService net s ?nm"
    with sl show ?thesis by blast
  next
    assume "\<not> isLB (parseService net s ?nm)
             \<and> d \<in> set (fst (snd (listTasks c net (Service_ID s) (parseService net s ?nm) ?nm
                   (Spec_Mode_Global s \<noteq> None))))"
    then have "d \<in> set (fst (snd (listTasks c net (Service_ID s) (parseService net s ?nm) ?nm
                   (Spec_Mode_Global s \<noteq> None))))" ..
    from listTasks_records [OF this]
    obtain taskList t where
      t: "TaskList c [(''service'', Service_ID s), (''desired-state'', ''running'')] = Inr taskList"
         "t \<in> set taskList" "Status_State t = ''running''"
         "d = parseTasks net t (parseService net s ?nm) ?nm (Spec_Mode_Global s \<noteq> None)"
      by blast
    have "Name d = Spec_Name s @ ''.'' @
            (case Spec_Mode_Global s of None \<Rightarrow> Itoa (Slot t) | Some g \<Rightarrow> Task_ID t)"
      unfolding t(4) using svc_name
      by (cases "Spec_Mode_Global s") (simp_all add: parseTasks_def Let_def split: option.splits)
    with sl t show ?thesis by blast
  qed
qed

text \<open>
  On the example daemon: task \<open>t1\<close> in slot 1 of the replicated service \<open>api\<close> is
  \<open>api.1\<close>, the same task of the global service \<open>agent\<close> is \<open>agent.t1\<close>, and
  the record of the global service's task in the result of \<open>listServices\<close> has the
  ID form.
\<close>

theorem task_record_names_witness:
  "Name (parseTasks example_net task_running example_api example_networkMap False) = ''api.1''
   \<and> Name (parseTasks example_net task_running
             (parseService example_net service_agent example_networkMap)
             example_networkMap True) = ''agent.t1''
   \<and> Task_ID task_running \<noteq> Itoa (Slot task_running)
   \<and> Name (parseTasks example_net task_running example_api example_networkMap True) \<noteq> ''api.1''
   \<and> parseTasks example_net task_running
        (parseService example_net service_agent example_networkMap) example_networkMap True
        \<in> set (fst (snd (listServices example_isBackendLBSwarm
                          (example_client ''1.30'' [service_agent]) example_net)))
   \<and> (\<exists>serviceList s.
         ServiceList (example_client ''1.30'' [service_agent]) = Inr serviceList
         \<and> s \<in> set serviceList
         \<and> ((\<exists>networkMap'. example_isBackendLBSwarm (parseService example_net s networkMap')
                 \<and> parseTasks example_net task_running
                     (parseService example_net service_agent example_networkMap)
                     example_networkMap True = parseService example_net s networkMap')
            \<or> (\<exists>taskList t.
                  TaskList (example_client ''1.30'' [service_agent])
                    [(''service'', Service_ID s), (''desired-state'', ''running'')] = Inr taskList
                  \<and> t \<in> set taskList \<and> Status_State t = ''running''
                  \<and> Name (parseTasks example_net task_running
                       (parseService example_net service_agent example_networkMap)
                       example_networkMap True)
                     = Spec_Name s @ ''.'' @
                       (case Spec_Mode_Global s of
                          None \<Rightarrow> Itoa (Slot t)
                        | Some g \<Rightarrow> Task_ID t))))"
proof -
  let ?agent = "parseService example_net service_agent example_networkMap"
  let ?d = "parseTasks example_net task_running ?agent example_networkMap True"
  have slot: "Itoa (Slot task_running) = ''1''" by code_simp
  have api: "Name example_api = ''api''" by code_simp
  have agent: "Name ?agent = ''agent''" by code_simp
  have tid: "Task_ID task_running = ''t1''" by (simp add: task_running_def)
  have mem: "?d \<in> set (fst (snd (listServices example_isBackendLBSwarm
                          (example_client ''1.30'' [service_agent]) example_net)))"
    by code_simp
  note inst = task_record_names [of example_net task_running _ example_networkMap ?d
      example_isBackendLBSwarm "example_client ''1.30'' [service_agent]"]
  from inst [of example_api] inst [of ?agent] slot api agent tid mem
  show ?thesis by simp
qed

text \<open>
  C4, as stated, fails for standalone containers: \<open>listContainers\<close> keeps a record
  when its name is not empty and never looks at its networks. On the example daemon
  the running container \<open>c1\<close> has the network \<open>host\<close> with an empty address, and
  the running container \<open>c3\<close> has no network; both records are returned, the first
  with an endpoint whose address is empty, the second with an empty network map.
\<close>

theorem container_without_network_counterexample:
  "fst (snd (listContainers (example_client ''1.30'' [])))
     = [parseContainer container_web, parseContainer container_bare]
   \<and> Networks (NetworkSettings (parseContainer container_web))
     = Some [(''host'', \<lparr>nd_Name = ''host'', nd_Addr = '''', nd_Port = 0,
                           nd_Protocol = '''', nd_ID = ''h1''\<rparr>)]
   \<and> Networks (NetworkSettings (parseContainer container_bare)) = Some []
   \<and> len_map (Networks (NetworkSettings (parseContainer container_bare))) = 0"
  by code_simp

text \<open>
  C4, amended to the swarm paths. A service on the \<open>isBackendLBSwarm\<close> branch whose
  record has no network adds nothing to the result, and neither does a task whose record
  has no network. Every record that \<open>listServices\<close> or \<open>listTasks\<close> returns has a
  network map that is not empty, and, when the text of a parsed address is never empty,
  no address in it is empty.
\<close>

theorem swarm_records_have_networks:
  assumes "\<forall>s a. ParseCIDR net s = Some a \<longrightarrow> IP_text net a \<noteq> []"
  shows
    "(isLB (parseService net service networkMap)
        \<and> len_map (Networks (NetworkSettings (parseService net service networkMap))) = 0
      \<longrightarrow> fst (snd (listServices_service isLB c net networkMap st service)) = fst (snd st))
     \<and> (len_map (Networks (NetworkSettings
            (parseTasks net task serviceDockerData networkMap isGlobalSvc))) = 0
      \<longrightarrow> listTasks_task net serviceDockerData networkMap isGlobalSvc dockerDataList task
            = dockerDataList)
     \<and> (d \<in> set (fst (snd (listServices isLB c net))) \<longrightarrow>
          (\<exists>networks. Networks (NetworkSettings d) = Some networks \<and> networks \<noteq> []
             \<and> len_map (Networks (NetworkSettings d)) > 0
             \<and> (\<forall>e \<in> set networks. nd_Addr (snd e) \<noteq> [])))
     \<and> (d' \<in> set (fst (snd (listTasks c net serviceID serviceDockerData networkMap isGlobalSvc)))
          \<longrightarrow>
          (\<exists>networks. Networks (NetworkSettings d') = Some networks \<and> networks \<noteq> []
             \<and> len_map (Networks (NetworkSettings d')) > 0
             \<and> (\<forall>e \<in> set networks. nd_Addr (snd e) \<noteq> [])))"
proof (intro conjI impI)
  assume "isLB (parseService net service networkMap)
        \<and> len_map (Networks (NetworkSettings (parseService net service networkMap))) = 0"
  then show "fst (snd (listServices_service isLB c net networkMap st service)) = fst (snd st)"
    by (cases st) (simp add: listServices_service_def Let_def)
next
  assume "len_map (Networks (NetworkSettings
            (parseTasks net task serviceDockerData networkMap isGlobalSvc))) = 0"
  then show "listTasks_task net serviceDockerData networkMap isGlobalSvc dockerDataList task
            = dockerDataList"
    by (simp add: listTasks_task_def Let_def)
next
  have task_record: "\<exists>networks. Networks (NetworkSettings x) = Some networks \<and> networks \<noteq> []
             \<and> len_map (Networks (NetworkSettings x)) > 0
             \<and> (\<forall>e \<in> set networks. nd_Addr (snd e) \<noteq> [])"
    if x: "x \<in> set (fst (snd (listTasks c net sid sdd nm g)))" for x sid sdd nm g
  proof -
    from listTasks_records [OF x] obtain t where
      t: "x = parseTasks net t sdd nm g" "len_map (Networks (NetworkSettings x)) > 0"
      by blast
    from t(2) obtain networks where
      n: "Networks (NetworkSettings x) = Some networks" "networks \<noteq> []"
      by (auto simp: len_map_pos)
    from n(1) t(1) have "\<forall>e \<in> set networks. nd_Addr (snd e) \<noteq> []"
      using parseTasks_addrs [of net t sdd nm g networks, OF assms] by blast
    with n t(2) show ?thesis by blast
  qed
  {
    assume "d' \<in> set (fst (snd (listTasks c net serviceID serviceDockerData networkMap isGlobalSvc)))"
    then show "\<exists>networks. Networks (NetworkSettings d') = Some networks \<and> networks \<noteq> []
             \<and> len_map (Networks (NetworkSettings d')) > 0
             \<and> (\<forall>e \<in> set networks. nd_Addr (snd e) \<noteq> [])"
      by (rule task_record)
  }
  assume "d \<in> set (fst (snd (listServices isLB c net)))"
  from listServices_records [OF this]
  obtain networkList s where
    alt: "(d = parseService net s (listServices_networkMap networkList)
             \<and> len_map (Networks (NetworkSettings d)) > 0)
          \<or> d \<in> set (fst (snd (listTasks c net (Service_ID s)
                   (parseService net s (listServices_networkMap networkList))
                   (listServices_networkMap networkList) (Spec_Mode_Global s \<noteq> None))))"
    by blast
  then show "\<exists>networks. Networks (NetworkSettings d) = Some networks \<and> networks \<noteq> []
             \<and> len_map (Networks (NetworkSettings d)) > 0
             \<and> (\<forall>e \<in> set networks. nd_Addr (snd e) \<noteq> [])"
  proof
    assume a: "d = parseService net s (listServices_networkMap networkList)
             \<and> len_map (Networks (NetworkSettings d)) > 0"
    then obtain networks where
      n: "Networks (NetworkSettings d) = Some networks" "networks \<noteq> []"
      by (auto simp: len_map_pos)
    from n(1) a have "\<forall>e \<in> set networks. nd_Addr (snd e) \<noteq> []"
      using parseService_addrs [of net s "listServices_networkMap networkList" networks, OF assms]
      by blast
    with n a show ?thesis by blast
  next
    assume "d \<in> set (fst (snd (listTasks c net (Service_ID s)
                   (parseService net s (listServices_networkMap networkList))
                   (listServices_networkMap networkList) (Spec_Mode_Global s \<noteq> None))))"
    then show ?thesis by (rule task_record)
  qed
qed

text \<open>
  On the example daemon: the example \<open>net\<close> package never gives a parsed address an
  empty text; the service \<open>dns\<close> is on the \<open>isBackendLBSwarm\<close> branch with no
  network and adds nothing; the record of task \<open>t1\<close> of service \<open>api\<close> is returned
  and has one network with the address \<open>10.0.0.5\<close>.
\<close>

theorem swarm_records_have_networks_witness:
  "(\<forall>s. case ParseCIDR example_net s of None \<Rightarrow> True | Some a \<Rightarrow> IP_text example_net a \<noteq> [])
   \<and> example_isBackendLBSwarm (parseService example_net service_dns example_networkMap)
   \<and> len_map (Networks (NetworkSettings
        (parseService example_net service_dns example_networkMap))) = 0
   \<and> fst (snd (listServices_service example_isBackendLBSwarm
               (example_client ''1.30'' [service_api])
               example_net example_networkMap ([], [], None) service_dns)) = []
   \<and> parseTasks example_net task_running example_api example_networkMap False
        \<in> set (fst (snd (listServices example_isBackendLBSwarm
                          (example_client ''1.30'' [service_api]) example_net)))
   \<and> (\<exists>networks.
         Networks (NetworkSettings
           (parseTasks example_net task_running example_api example_networkMap False))
           = Some networks
         \<and> networks \<noteq> []
         \<and> (\<forall>e \<in> set networks. nd_Addr (snd e) \<noteq> []))
   \<and> Networks (NetworkSettings
        (parseTasks example_net task_running example_api example_networkMap False))
      = Some [(''backend'', \<lparr>nd_Name = ''backend'', nd_Addr = ''10.0.0.5'', nd_Port = 0,
                              nd_Protocol = '''', nd_ID = ''n1''\<rparr>)]"
proof -
  let ?d = "parseTasks example_net task_running example_api example_networkMap False"
  have nonempty: "\<forall>s a. ParseCIDR example_net s = Some a \<longrightarrow> IP_text example_net a \<noteq> []"
    by (auto simp: example_net_def split: if_splits)
  then have nonempty': "\<forall>s. case ParseCIDR example_net s of None \<Rightarrow> True
                        | Some a \<Rightarrow> IP_text example_net a \<noteq> []"
    by (auto split: option.splits)
  have lb: "example_isBackendLBSwarm (parseService example_net service_dns example_networkMap)"
    by code_simp
  have none: "len_map (Networks (NetworkSettings
        (parseService example_net service_dns example_networkMap))) = 0"
    by code_simp
  have mem: "?d \<in> set (fst (snd (listServices example_isBackendLBSwarm
                          (example_client ''1.30'' [service_api]) example_net)))"
    by code_simp
  have val: "Networks (NetworkSettings ?d)
      = Some [(''backend'', \<lparr>nd_Name = ''backend'', nd_Addr = ''10.0.0.5'', nd_Port = 0,
                              nd_Protocol = '''', nd_ID = ''n1''\<rparr>)]"
    by code_simp
  from swarm_records_have_networks [of example_net example_isBackendLBSwarm service_dns
      example_networkMap "example_client ''1.30'' [service_api]" "([], [], None)" _ _ _ _ ?d,
      OF nonempty]
    nonempty' lb none mem val
  show ?thesis by simp
qed

text \<open>
  C8. Which events the standalone watcher acts on. An event whose action is \<open>start\<close>
  or \<open>die\<close>, or begins with \<open>health_status\<close>, makes the loop list the containers
  anew: what the loop does from that event on begins with the call of
  \<open>ContainerList\<close>. An event with any other action leaves no trace: the loop does,
  and returns, exactly what it does on the deliveries after it. Over a whole run, the
  number of container listings is the number of received events with such an action.
\<close>

theorem standalone_event_filter:
  "((Action event = ''start'' \<or> Action event = ''die''
       \<or> (\<exists>suffix. Action event = ''health_status'' @ suffix)) \<longrightarrow>
      (\<exists>more. fst (watchEvents bc daemon n (EventMsg event # rest))
                 = Call ContainerListCall # more))
   \<and> (\<not> (Action event = ''start'' \<or> Action event = ''die''
          \<or> (\<exists>suffix. Action event = ''health_status'' @ suffix)) \<longrightarrow>
      watchEvents bc daemon n (EventMsg event # rest) = watchEvents bc daemon (Suc n) rest)
   \<and> length (filter (\<lambda>e. e = Call ContainerListCall) (fst (watchEvents bc daemon n deliveries)))
      = length (filter (\<lambda>ev. Action ev = ''start'' \<or> Action ev = ''die''
                           \<or> (\<exists>suffix. Action ev = ''health_status'' @ suffix))
                 (received_events deliveries))"
proof (intro conjI impI)
  assume "Action event = ''start'' \<or> Action event = ''die''
       \<or> (\<exists>suffix. Action event = ''health_status'' @ suffix)"
  then have "fst (watchEvents bc daemon n (EventMsg event # rest))
      = startStopHandle bc (daemon n) event @ fst (watchEvents bc daemon (Suc n) rest)"
    by (simp add: HasPrefix_iff split: prod.splits)
  with startStopHandle_starts [of bc "daemon n" event]
  show "\<exists>more. fst (watchEvents bc daemon n (EventMsg event # rest))
                 = Call ContainerListCall # more"
    by auto
next
  assume "\<not> (Action event = ''start'' \<or> Action event = ''die''
          \<or> (\<exists>suffix. Action event = ''health_status'' @ suffix))"
  then show "watchEvents bc daemon n (EventMsg event # rest)
      = watchEvents bc daemon (Suc n) rest"
    by (simp add: HasPrefix_iff split: prod.splits)
next
  show "length (filter (\<lambda>e. e = Call ContainerListCall) (fst (watchEvents bc daemon n deliveries)))
      = length (filter (\<lambda>ev. Action ev = ''start'' \<or> Action ev = ''die''
                           \<or> (\<exists>suffix. Action ev = ''health_status'' @ suffix))
                 (received_events deliveries))"
  proof (induction deliveries arbitrary: n)
    case Nil
    show ?case by simp
  next
    case (Cons x deliveries)
    show ?case
    proof (cases x)
      case (StreamErr err)
      then show ?thesis by simp
    next
      case (EventMsg ev)
      show ?thesis
      proof (cases "Action ev = ''start'' \<or> Action ev = ''die''
                      \<or> (\<exists>suffix. Action ev = ''health_status'' @ suffix)")
        case True
        then have "fst (watchEvents bc daemon n (x # deliveries))
            = startStopHandle bc (daemon n) ev @ fst (watchEvents bc daemon (Suc n) deliveries)"
          using EventMsg by (simp add: HasPrefix_iff split: prod.splits)
        with True EventMsg Cons.IH [of "Suc n"]
          startStopHandle_lists_once [of bc "daemon n" ev]
        show ?thesis by simp
      next
        case False
        then have "watchEvents bc daemon n (x # deliveries)
            = watchEvents bc daemon (Suc n) deliveries"
          using EventMsg by (simp add: HasPrefix_iff split: prod.splits)
        with False EventMsg Cons.IH [of "Suc n"] show ?thesis by simp
      qed
    qed
  qed
qed

text \<open>
  On the example daemon: \<open>health_status: healthy\<close> triggers a listing, \<open>create\<close>
  does nothing; of the deliveries \<open>create\<close>, \<open>health_status: healthy\<close>, end of
  stream, \<open>start\<close> the loop receives two events, lists once and returns the end of
  stream.
\<close>

theorem standalone_event_filter_witness:
  "(\<exists>suffix. ''health_status: healthy'' = ''health_status'' @ suffix)
   \<and> (\<exists>more. fst (watchEvents example_buildConfiguration (\<lambda>n. example_client ''1.30'' []) 0
                  (EventMsg \<lparr>Action = ''health_status: healthy'', Actor_ID = ''c1''\<rparr> # []))
               = Call ContainerListCall # more)
   \<and> \<not> (''create'' = ''start'' \<or> ''create'' = ''die''
          \<or> (\<exists>suffix. ''create'' = ''health_status'' @ suffix))
   \<and> watchEvents example_buildConfiguration (\<lambda>n. example_client ''1.30'' []) 0
        (EventMsg \<lparr>Action = ''create'', Actor_ID = ''c1''\<rparr> # []) = ([], None)
   \<and> length (filter (\<lambda>e. e = Call ContainerListCall)
        (fst (watchEvents example_buildConfiguration (\<lambda>n. example_client ''1.30'' []) 0
               [EventMsg \<lparr>Action = ''create'', Actor_ID = ''c1''\<rparr>,
                EventMsg \<lparr>Action = ''health_status: healthy'', Actor_ID = ''c1''\<rparr>,
                StreamErr EOF,
                EventMsg \<lparr>Action = ''start'', Actor_ID = ''c1''\<rparr>]))) = 1
   \<and> snd (watchEvents example_buildConfiguration (\<lambda>n. example_client ''1.30'' []) 0
               [EventMsg \<lparr>Action = ''create'', Actor_ID = ''c1''\<rparr>,
                EventMsg \<lparr>Action = ''health_status: healthy'', Actor_ID = ''c1''\<rparr>,
                StreamErr EOF,
                EventMsg \<lparr>Action = ''start'', Actor_ID = ''c1''\<rparr>]) = Some EOF"
proof -
  let ?health = "\<lparr>Action = ''health_status: healthy'', Actor_ID = ''c1''\<rparr>"
  let ?create = "\<lparr>Action = ''create'', Actor_ID = ''c1''\<rparr>"
  let ?run = "[EventMsg ?create, EventMsg ?health, StreamErr EOF,
               EventMsg \<lparr>Action = ''start'', Actor_ID = ''c1''\<rparr>]"
  have health: "\<exists>suffix. ''health_status: healthy'' = ''health_status'' @ suffix"
    by (rule exI [of _ "'': healthy''"]) simp
  have create: "\<not> (''create'' = ''start'' \<or> ''create'' = ''die''
          \<or> (\<exists>suffix. ''create'' = ''health_status'' @ suffix))"
    by auto
  have returned: "snd (watchEvents example_buildConfiguration
      (\<lambda>n. example_client ''1.30'' []) 0 ?run) = Some EOF"
    by code_simp
  have "length (filter (\<lambda>ev. Action ev = ''start'' \<or> Action ev = ''die''
                           \<or> (\<exists>suffix. Action ev = ''health_status'' @ suffix))
                 (received_events ?run)) = 1"
    using health create by simp
  with health create returned
    standalone_event_filter [of ?health example_buildConfiguration
      "\<lambda>n. example_client ''1.30'' []" 0 "[]" ?run]
    standalone_event_filter [of ?create example_buildConfiguration
      "\<lambda>n. example_client ''1.30'' []" 0 "[]" ?run]
  show ?thesis by simp
qed

text \<open>
  C9, as stated, fails: the handler sends only when the configuration that
  \<open>buildConfiguration\<close> returns is not nil. With a builder that returns nil, the
  event \<open>start\<close> on the example daemon makes the loop list and inspect the containers,
  without an error, and send nothing.
\<close>

theorem standalone_publish_counterexample:
  "snd (snd (listContainers (example_client ''1.30'' []))) = None
   \<and> watchEvents (\<lambda>records. (None :: nat option)) (\<lambda>n. example_client ''1.30'' []) 0
        [EventMsg \<lparr>Action = ''start'', Actor_ID = ''c1''\<rparr>]
      = ([Call ContainerListCall, Call (ContainerInspectCall ''c1''),
          Call (ContainerInspectCall ''c2''), Call (ContainerInspectCall ''c3'')], None)"
  by code_simp

text \<open>
  C9, amended. After an event with one of the three kinds of action, when the listing
  of the containers returns no error, the loop has made the calls of the listing and
  then sent the configuration built from the new records, under the provider name
  \<open>docker\<close>, if that configuration is not nil; it has sent nothing if it is nil. No
  other condition is looked at: the records may be none.
\<close>

theorem standalone_publish:
  assumes "Action event = ''start'' \<or> Action event = ''die''
             \<or> (\<exists>suffix. Action event = ''health_status'' @ suffix)"
    and "listContainers (daemon n) = (calls, containers, None)"
  shows "fst (watchEvents buildConfiguration daemon n (EventMsg event # rest)) =
           map Call calls
           @ (case buildConfiguration containers of
                None \<Rightarrow> []
              | Some configuration \<Rightarrow>
                  [Send \<lparr>ProviderName = ''docker'', Configuration = configuration\<rparr>])
           @ fst (watchEvents buildConfiguration daemon (Suc n) rest)"
proof -
  from assms(1) have "fst (watchEvents buildConfiguration daemon n (EventMsg event # rest))
      = startStopHandle buildConfiguration (daemon n) event
        @ fst (watchEvents buildConfiguration daemon (Suc n) rest)"
    by (simp add: HasPrefix_iff split: prod.splits)
  moreover from assms(2) have "startStopHandle buildConfiguration (daemon n) event =
      map Call calls
      @ (case buildConfiguration containers of
           None \<Rightarrow> []
         | Some configuration \<Rightarrow>
             [Send \<lparr>ProviderName = ''docker'', Configuration = configuration\<rparr>])"
    by (simp add: startStopHandle_def split: option.splits)
  ultimately show ?thesis by simp
qed

text \<open>
  On a daemon without containers, with the example builder (which never returns nil):
  after \<open>die\<close> the listing succeeds with no record, and the configuration built from
  no record is sent.
\<close>

theorem standalone_publish_witness:
  "(''die'' = ''start'' \<or> ''die'' = ''die'' \<or> (\<exists>suffix. ''die'' = ''health_status'' @ suffix))
   \<and> listContainers ((example_client ''1.30'' [])\<lparr>ContainerList := Inr []\<rparr>)
       = ([ContainerListCall], [], None)
   \<and> fst (watchEvents example_buildConfiguration
            (\<lambda>n. (example_client ''1.30'' [])\<lparr>ContainerList := Inr []\<rparr>) 0
            (EventMsg \<lparr>Action = ''die'', Actor_ID = ''c1''\<rparr> # []))
      = [Call ContainerListCall, Send \<lparr>ProviderName = ''docker'', Configuration = 0\<rparr>]"
proof -
  have action: "''die'' = ''start'' \<or> ''die'' = ''die''
      \<or> (\<exists>suffix. ''die'' = ''health_status'' @ suffix)"
    by simp
  have listing: "listContainers ((example_client ''1.30'' [])\<lparr>ContainerList := Inr []\<rparr>)
       = ([ContainerListCall], [], None)"
    by code_simp
  from standalone_publish [of "\<lparr>Action = ''die'', Actor_ID = ''c1''\<rparr>"
      "\<lambda>n. (example_client ''1.30'' [])\<lparr>ContainerList := Inr []\<rparr>" 0
      "[ContainerListCall]" "[]" example_buildConfiguration "[]"]
    action listing
  show ?thesis by (simp add: example_buildConfiguration_def)
qed

text \<open>
  C1, as stated, fails: when the task list of the service fails, the callback returns
  at once. On the example daemon the task list of service \<open>s2\<close> fails; the callback
  makes that one call and nothing else, where the enumeration it skips would have
  listed the services and sent a configuration.
\<close>

theorem callback_task_list_failure_counterexample:
  "TaskList (example_client ''1.30'' [service_api])
     [(''service'', ''s2''), (''desired-state'', ''running'')]
   = Inl (DaemonError ''task list failed'')
   \<and> callbackFunc 5 example_buildConfiguration example_isBackendLBSwarm example_net
        (\<lambda>t. example_client ''1.30'' [service_api]) 0
        \<lparr>Action = ''update'', Actor_ID = ''s2''\<rparr>
      = Some [Call (TaskListCall [(''service'', ''s2''), (''desired-state'', ''running'')])]
   \<and> listAndUpdateServicesHelper example_buildConfiguration example_isBackendLBSwarm
        example_net (example_client ''1.30'' [service_api])
      = [Call ServiceListCall, Call ServerVersionCall,
         Call (NetworkListCall [(''scope'', ''swarm'')]),
         Call (TaskListCall [(''service'', ''s1''), (''desired-state'', ''running'')]),
         Send \<lparr>ProviderName = ''docker'', Configuration = 1\<rparr>]"
  by code_simp

text \<open>
  C1, amended. For an event that names a service, when the task list of that service
  fails, the callback stops waiting: it returns, for any bound of at least one call,
  after the one call of \<open>TaskList\<close>, with no sleep and no further try, without
  listing the services and without sending anything.
\<close>

theorem callback_task_list_failure:
  assumes "Actor_ID msg \<noteq> ''''"
    and "TaskList (daemon t) [(''service'', Actor_ID msg), (''desired-state'', ''running'')]
           = Inl err"
  shows "callbackFunc (Suc fuel) buildConfiguration isBackendLBSwarm net daemon t msg =
           Some [Call (TaskListCall
                   [(''service'', Actor_ID msg), (''desired-state'', ''running'')])]"
  using assms by (simp add: NewArgs_def Arg_def)

theorem callback_task_list_failure_witness:
  "Actor_ID \<lparr>Action = ''update'', Actor_ID = ''s2''\<rparr> \<noteq> ''''
   \<and> TaskList (example_client ''1.30'' [service_api])
       [(''service'', ''s2''), (''desired-state'', ''running'')]
     = Inl (DaemonError ''task list failed'')
   \<and> callbackFunc (Suc 0) example_buildConfiguration example_isBackendLBSwarm example_net
        (\<lambda>t. example_client ''1.30'' [service_api]) 7
        \<lparr>Action = ''update'', Actor_ID = ''s2''\<rparr>
      = Some [Call (TaskListCall [(''service'', ''s2''), (''desired-state'', ''running'')])]"
proof -
  let ?msg = "\<lparr>Action = ''update'', Actor_ID = ''s2''\<rparr>"
  have actor: "Actor_ID ?msg \<noteq> ''''" by simp
  have failed: "TaskList (example_client ''1.30'' [service_api])
       [(''service'', Actor_ID ?msg), (''desired-state'', ''running'')]
     = Inl (DaemonError ''task list failed'')"
    by (simp add: example_client_def)
  from callback_task_list_failure [of ?msg "\<lambda>t. example_client ''1.30'' [service_api]" 7
      "DaemonError ''task list failed''" 0 example_buildConfiguration
      example_isBackendLBSwarm example_net, OF actor failed] actor failed
  show ?thesis by simp
qed

text \<open>
  C2. A failed task list of one service is meant not to fail the pass: the loop of
  \<open>listServices\<close> goes on to the next service. But \<open>listTasks\<close> assigns the
  variable \<open>err\<close> that \<open>listServices\<close> returns at its end, so the error of the last
  task listing is returned. On the example daemon the task list of \<open>s2\<close> fails. With
  the services \<open>s1\<close>, \<open>s2\<close> in this order the pass returns the record of \<open>s1\<close>
  together with the error, and \<open>listAndUpdateServices\<close> returns the error and sends
  nothing; with \<open>s2\<close>, \<open>s1\<close> the pass returns the same record and no error.
\<close>

theorem listServices_last_task_list_failure:
  "snd (snd (listServices example_isBackendLBSwarm
               (example_client ''1.30'' [service_api, service_db]) example_net))
     = Some (DaemonError ''task list failed'')
   \<and> fst (snd (listServices example_isBackendLBSwarm
               (example_client ''1.30'' [service_api, service_db]) example_net))
     = [parseTasks example_net task_running example_api example_networkMap False]
   \<and> listAndUpdateServices example_buildConfiguration example_isBackendLBSwarm example_net
        (example_client ''1.30'' [service_api, service_db])
     = ([Call ServiceListCall, Call ServerVersionCall,
         Call (NetworkListCall [(''scope'', ''swarm'')]),
         Call (TaskListCall [(''service'', ''s1''), (''desired-state'', ''running'')]),
         Call (TaskListCall [(''service'', ''s2''), (''desired-state'', ''running'')])],
        Some (DaemonError ''task list failed''))
   \<and> snd (listServices example_isBackendLBSwarm
               (example_client ''1.30'' [service_db, service_api]) example_net)
     = ([parseTasks example_net task_running example_api example_networkMap False], None)"
  by code_simp

text \<open>
  C5. A service in the endpoint mode \<open>dnsrr\<close> gets no network from \<open>parseService\<close>.
  When \<open>isBackendLBSwarm\<close> holds of its record, \<open>listServices\<close> takes the branch of
  the service's own addresses, finds no network and drops the service: its tasks are
  never listed. On the example daemon the service \<open>dns\<close> is such a service; its task
  \<open>t1\<close> runs and \<open>listTasks\<close> would return a record for it, but the pass makes no
  call of \<open>TaskList\<close> and returns no record.
\<close>

theorem listServices_dnsrr_swarm_lb_dropped:
  "Spec_EndpointSpec service_dns = Some ResolutionModeDNSRR
   \<and> Networks (NetworkSettings (parseService example_net service_dns example_networkMap)) = None
   \<and> example_isBackendLBSwarm (parseService example_net service_dns example_networkMap)
   \<and> listServices example_isBackendLBSwarm (example_client ''1.30'' [service_dns]) example_net
     = ([ServiceListCall, ServerVersionCall, NetworkListCall [(''scope'', ''swarm'')]], [], None)
   \<and> fst (snd (listTasks (example_client ''1.30'' [service_dns]) example_net ''s3''
               (parseService example_net service_dns example_networkMap)
               example_networkMap False))
     = [parseTasks example_net task_running
          (parseService example_net service_dns example_networkMap) example_networkMap False]"
  by code_simp

text \<open>
  C10. An address that does not parse. Take a virtual address of a service in the
  endpoint mode \<open>vip\<close>, or an address of a network attachment of a task, on a network
  that is in \<open>networkMap\<close>, and let \<open>net.ParseCIDR\<close> fail on its text; for the
  virtual address the text is not empty. The turn of the loop for that address stores,
  under the name of the network, an endpoint whose address is the text \<open><nil>\<close>.
  The finished record has an entry under that name, so its network map is not empty:
  the service's record is returned by \<open>listServices\<close> when it is on the
  \<open>isBackendLBSwarm\<close> branch, and the record of a running task is returned by
  \<open>listTasks\<close>.
\<close>

theorem unparsed_address_is_nil_endpoint:
  "(networkMap (vip_NetworkID virtualIP) = Some networkService
      \<and> vip_Addr virtualIP \<noteq> '''' \<and> ParseCIDR net (vip_Addr virtualIP) = None \<longrightarrow>
      map_of (parseService_vip net networkMap networks virtualIP) (nr_Name networkService)
        = Some \<lparr>nd_Name = nr_Name networkService, nd_Addr = ''<nil>'', nd_Port = 0,
                 nd_Protocol = '''', nd_ID = vip_NetworkID virtualIP\<rparr>)
   \<and> (Spec_EndpointSpec service = Some ''vip''
      \<and> virtualIP \<in> set (Endpoint_VirtualIPs service)
      \<and> networkMap (vip_NetworkID virtualIP) = Some networkService
      \<and> vip_Addr virtualIP \<noteq> '''' \<and> ParseCIDR net (vip_Addr virtualIP) = None \<longrightarrow>
      (\<exists>al. Networks (NetworkSettings (parseService net service networkMap)) = Some al
            \<and> nr_Name networkService \<in> fst ` set al)
      \<and> len_map (Networks (NetworkSettings (parseService net service networkMap))) > 0)
   \<and> (ServiceList c = Inr serviceList \<and> ServerVersion c = Inr serverVersion
      \<and> NetworkList c
           (if GreaterThanOrEqualTo (APIVersion serverVersion) ''1.29''
            then [(''scope'', ''swarm'')] else [(''driver'', ''overlay'')]) = Inr networkList
      \<and> service' \<in> set serviceList
      \<and> isLB (parseService net service' (listServices_networkMap networkList))
      \<and> Spec_EndpointSpec service' = Some ''vip''
      \<and> virtualIP' \<in> set (Endpoint_VirtualIPs service')
      \<and> listServices_networkMap networkList (vip_NetworkID virtualIP') = Some networkService'
      \<and> vip_Addr virtualIP' \<noteq> '''' \<and> ParseCIDR net (vip_Addr virtualIP') = None \<longrightarrow>
      parseService net service' (listServices_networkMap networkList)
        \<in> set (fst (snd (listServices isLB c net))))
   \<and> (ParseCIDR net addr = None \<longrightarrow>
      map_of (parseTasks_address net networkService attachment networks addr)
          (nr_Name networkService)
        = Some \<lparr>nd_Name = nr_Name networkService, nd_Addr = ''<nil>'', nd_Port = 0,
                 nd_Protocol = '''', nd_ID = Network_ID attachment\<rparr>)
   \<and> (NetworksAttachments task = Some attachments \<and> attachment \<in> set attachments
      \<and> networkMap (Network_ID attachment) = Some networkService
      \<and> addr \<in> set (Addresses attachment) \<and> ParseCIDR net addr = None \<longrightarrow>
      (\<exists>al. Networks (NetworkSettings
               (parseTasks net task serviceDockerData networkMap isGlobalSvc)) = Some al
            \<and> nr_Name networkService \<in> fst ` set al)
      \<and> len_map (Networks (NetworkSettings
            (parseTasks net task serviceDockerData networkMap isGlobalSvc))) > 0
      \<and> (TaskList c [(''service'', serviceID), (''desired-state'', ''running'')] = Inr taskList
          \<and> task \<in> set taskList \<and> Status_State task = ''running'' \<longrightarrow>
          parseTasks net task serviceDockerData networkMap isGlobalSvc
            \<in> set (fst (snd (listTasks c net serviceID serviceDockerData networkMap
                              isGlobalSvc)))))"
proof -
  have turn_service: "map_of (parseService_vip net networkMap networks virtualIP)
        (nr_Name networkService)
        = Some \<lparr>nd_Name = nr_Name networkService, nd_Addr = ''<nil>'', nd_Port = 0,
                 nd_Protocol = '''', nd_ID = vip_NetworkID virtualIP\<rparr>"
    if "networkMap (vip_NetworkID virtualIP) = Some networkService"
      "vip_Addr virtualIP \<noteq> ''''" "ParseCIDR net (vip_Addr virtualIP) = None"
    using that by (simp add: parseService_vip_def Let_def IP_String_def update_lookup)
  have service_counts:
    "(\<exists>al. Networks (NetworkSettings (parseService net s nm)) = Some al
            \<and> nr_Name nw \<in> fst ` set al)
      \<and> len_map (Networks (NetworkSettings (parseService net s nm))) > 0"
    if "Spec_EndpointSpec s = Some ''vip''" "v \<in> set (Endpoint_VirtualIPs s)"
      "nm (vip_NetworkID v) = Some nw" "vip_Addr v \<noteq> ''''"
    for s v nm nw
  proof -
    let ?al = "foldl (parseService_vip net nm) [] (Endpoint_VirtualIPs s)"
    from that(1) have al: "Networks (NetworkSettings (parseService net s nm)) = Some ?al"
      by (simp add: parseService_def Let_def ResolutionModeDNSRR_def ResolutionModeVIP_def)
    from parseService_vips_add_key [where net = net and networks = "[]" and nm = nm and v = v
        and nw = nw, OF that(2-4)]
    have key: "nr_Name nw \<in> fst ` set ?al" .
    from al key len_map_key [OF key] show ?thesis by simp
  qed
  have turn_task: "map_of (parseTasks_address net networkService attachment networks addr)
          (nr_Name networkService)
        = Some \<lparr>nd_Name = nr_Name networkService, nd_Addr = ''<nil>'', nd_Port = 0,
                 nd_Protocol = '''', nd_ID = Network_ID attachment\<rparr>"
    if "ParseCIDR net addr = None"
    using that by (simp add: parseTasks_address_def Let_def IP_String_def update_lookup)
  have task_counts:
    "(\<exists>al. Networks (NetworkSettings
               (parseTasks net task serviceDockerData networkMap isGlobalSvc)) = Some al
            \<and> nr_Name networkService \<in> fst ` set al)
      \<and> len_map (Networks (NetworkSettings
            (parseTasks net task serviceDockerData networkMap isGlobalSvc))) > 0"
    if "NetworksAttachments task = Some attachments" "attachment \<in> set attachments"
      "networkMap (Network_ID attachment) = Some networkService"
      "addr \<in> set (Addresses attachment)"
  proof -
    let ?al = "foldl (parseTasks_attachment net networkMap) [] attachments"
    from that(1) have al: "Networks (NetworkSettings
        (parseTasks net task serviceDockerData networkMap isGlobalSvc)) = Some ?al"
      by (simp add: parseTasks_def Let_def)
    from that(4) have "Addresses attachment \<noteq> []" by auto
    from parseTasks_attachments_add_key [where net = net and networks = "[]"
        and nm = networkMap and att = attachment and nw = networkService, OF that(2,3) this]
    have key: "nr_Name networkService \<in> fst ` set ?al" .
    from al key len_map_key [OF key] show ?thesis by simp
  qed
  show ?thesis
  proof (intro conjI impI)
    assume "networkMap (vip_NetworkID virtualIP) = Some networkService
      \<and> vip_Addr virtualIP \<noteq> '''' \<and> ParseCIDR net (vip_Addr virtualIP) = None"
    then show "map_of (parseService_vip net networkMap networks virtualIP)
        (nr_Name networkService)
        = Some \<lparr>nd_Name = nr_Name networkService, nd_Addr = ''<nil>'', nd_Port = 0,
                 nd_Protocol = '''', nd_ID = vip_NetworkID virtualIP\<rparr>"
      using turn_service by blast
  next
    assume a: "Spec_EndpointSpec service = Some ''vip''
      \<and> virtualIP \<in> set (Endpoint_VirtualIPs service)
      \<and> networkMap (vip_NetworkID virtualIP) = Some networkService
      \<and> vip_Addr virtualIP \<noteq> '''' \<and> ParseCIDR net (vip_Addr virtualIP) = None"
    with service_counts [of service virtualIP networkMap networkService]
    show "\<exists>al. Networks (NetworkSettings (parseService net service networkMap)) = Some al
            \<and> nr_Name networkService \<in> fst ` set al"
      by blast
    from a service_counts [of service virtualIP networkMap networkService]
    show "len_map (Networks (NetworkSettings (parseService net service networkMap))) > 0"
      by blast
  next
    assume a: "ServiceList c = Inr serviceList \<and> ServerVersion c = Inr serverVersion
      \<and> NetworkList c
           (if GreaterThanOrEqualTo (APIVersion serverVersion) ''1.29''
            then [(''scope'', ''swarm'')] else [(''driver'', ''overlay'')]) = Inr networkList
      \<and> service' \<in> set serviceList
      \<and> isLB (parseService net service' (listServices_networkMap networkList))
      \<and> Spec_EndpointSpec service' = Some ''vip''
      \<and> virtualIP' \<in> set (Endpoint_VirtualIPs service')
      \<and> listServices_networkMap networkList (vip_NetworkID virtualIP') = Some networkService'
      \<and> vip_Addr virtualIP' \<noteq> '''' \<and> ParseCIDR net (vip_Addr virtualIP') = None"
    with service_counts [of service' virtualIP' "listServices_networkMap networkList"
        networkService']
    have "len_map (Networks (NetworkSettings
            (parseService net service' (listServices_networkMap networkList)))) > 0"
      by blast
    with a listServices_includes [where isLB = isLB and c = c and net = net
        and s = service' and serviceList = serviceList and serverVersion = serverVersion
        and networkList = networkList]
    show "parseService net service' (listServices_networkMap networkList)
        \<in> set (fst (snd (listServices isLB c net)))"
      by blast
  next
    assume "ParseCIDR net addr = None"
    then show "map_of (parseTasks_address net networkService attachment networks addr)
          (nr_Name networkService)
        = Some \<lparr>nd_Name = nr_Name networkService, nd_Addr = ''<nil>'', nd_Port = 0,
                 nd_Protocol = '''', nd_ID = Network_ID attachment\<rparr>"
      by (rule turn_task)
  next
    assume a: "NetworksAttachments task = Some attachments \<and> attachment \<in> set attachments
      \<and> networkMap (Network_ID attachment) = Some networkService
      \<and> addr \<in> set (Addresses attachment) \<and> ParseCIDR net addr = None"
    with task_counts
    show "\<exists>al. Networks (NetworkSettings
               (parseTasks net task serviceDockerData networkMap isGlobalSvc)) = Some al
            \<and> nr_Name networkService \<in> fst ` set al"
      by blast
    from a task_counts
    show pos: "len_map (Networks (NetworkSettings
            (parseTasks net task serviceDockerData networkMap isGlobalSvc))) > 0"
      by blast
    assume "TaskList c [(''service'', serviceID), (''desired-state'', ''running'')] = Inr taskList
          \<and> task \<in> set taskList \<and> Status_State task = ''running''"
    with pos listTasks_includes [of c serviceID taskList task net serviceDockerData
        networkMap isGlobalSvc]
    show "parseTasks net task serviceDockerData networkMap isGlobalSvc
            \<in> set (fst (snd (listTasks c net serviceID serviceDockerData networkMap
                              isGlobalSvc)))"
      by blast
  qed
qed
text \<open>
  On the example daemon the text \<open>10.0.0.7\<close> is not in CIDR form. It is the virtual
  address of the service \<open>vip\<close> and the address of the running task \<open>t3\<close> of the
  service \<open>s5\<close>, both on the known network \<open>n1\<close>: each gets the endpoint
  \<open><nil>\<close> under the network's name \<open>backend\<close>, and both records are returned.
\<close>

theorem unparsed_address_is_nil_endpoint_witness:
  "example_networkMap ''n1'' = Some \<lparr>nr_ID = ''n1'', nr_Name = ''backend''\<rparr>
   \<and> ParseCIDR example_net ''10.0.0.7'' = None
   \<and> map_of (parseService_vip example_net example_networkMap []
               \<lparr>vip_NetworkID = ''n1'', vip_Addr = ''10.0.0.7''\<rparr>) ''backend''
       = Some \<lparr>nd_Name = ''backend'', nd_Addr = ''<nil>'', nd_Port = 0,
                nd_Protocol = '''', nd_ID = ''n1''\<rparr>
   \<and> Spec_EndpointSpec service_vip = Some ''vip''
   \<and> \<lparr>vip_NetworkID = ''n1'', vip_Addr = ''10.0.0.7''\<rparr> \<in> set (Endpoint_VirtualIPs service_vip)
   \<and> len_map (Networks (NetworkSettings
         (parseService example_net service_vip example_networkMap))) > 0
   \<and> example_isBackendLBSwarm (parseService example_net service_vip example_networkMap)
   \<and> parseService example_net service_vip example_networkMap
       \<in> set (fst (snd (listServices example_isBackendLBSwarm
                         (example_client ''1.30'' [service_vip]) example_net)))
   \<and> map_of (parseTasks_address example_net \<lparr>nr_ID = ''n1'', nr_Name = ''backend''\<rparr>
               \<lparr>Network_ID = ''n1'', Addresses = [''10.0.0.7'']\<rparr> [] ''10.0.0.7'') ''backend''
       = Some \<lparr>nd_Name = ''backend'', nd_Addr = ''<nil>'', nd_Port = 0,
                nd_Protocol = '''', nd_ID = ''n1''\<rparr>
   \<and> NetworksAttachments task_badaddr
       = Some [\<lparr>Network_ID = ''n1'', Addresses = [''10.0.0.7'']\<rparr>]
   \<and> TaskList (example_client ''1.30'' [service_vip])
         [(''service'', ''s5''), (''desired-state'', ''running'')]
       = Inr [task_running, task_badaddr]
   \<and> Status_State task_badaddr = ''running''
   \<and> parseTasks example_net task_badaddr example_api example_networkMap True
       \<in> set (fst (snd (listTasks (example_client ''1.30'' [service_vip]) example_net ''s5''
                         example_api example_networkMap True)))"
proof -
  let ?nw = "\<lparr>nr_ID = ''n1'', nr_Name = ''backend''\<rparr>"
  let ?vip = "\<lparr>vip_NetworkID = ''n1'', vip_Addr = ''10.0.0.7''\<rparr>"
  let ?att = "\<lparr>Network_ID = ''n1'', Addresses = [''10.0.0.7'']\<rparr>"
  let ?c = "example_client ''1.30'' [service_vip]"
  have nm: "example_networkMap = listServices_networkMap [?nw]"
    by (simp add: example_networkMap_def)
  have known: "example_networkMap ''n1'' = Some ?nw"
    by (simp add: example_networkMap_def listServices_networkMap_def)
  have known_vip: "example_networkMap (vip_NetworkID ?vip) = Some ?nw"
    using known by simp
  have known_att: "example_networkMap (Network_ID ?att) = Some ?nw"
    using known by simp
  have unparsed: "ParseCIDR example_net ''10.0.0.7'' = None"
    by (simp add: example_net_def)
  have unparsed_vip: "ParseCIDR example_net (vip_Addr ?vip) = None"
    using unparsed by simp
  have nonempty: "vip_Addr ?vip \<noteq> ''''" by simp
  have mode: "Spec_EndpointSpec service_vip = Some ''vip''"
    by (simp add: service_vip_def)
  have vips: "?vip \<in> set (Endpoint_VirtualIPs service_vip)"
    by (simp add: service_vip_def)
  have lb: "example_isBackendLBSwarm (parseService example_net service_vip example_networkMap)"
    by code_simp
  have services: "ServiceList ?c = Inr [service_vip]"
    by (simp add: example_client_def)
  have version: "ServerVersion ?c = Inr \<lparr>Version_Version = ''17.06'', APIVersion = ''1.30''\<rparr>"
    by (simp add: example_client_def)
  have networks: "NetworkList ?c
      (if GreaterThanOrEqualTo
            (APIVersion \<lparr>Version_Version = ''17.06'', APIVersion = ''1.30''\<rparr>) ''1.29''
       then [(''scope'', ''swarm'')] else [(''driver'', ''overlay'')]) = Inr [?nw]"
    by (simp add: example_client_def)
  have atts: "NetworksAttachments task_badaddr = Some [?att]"
    by (simp add: task_badaddr_def)
  have tasks: "TaskList ?c [(''service'', ''s5''), (''desired-state'', ''running'')]
       = Inr [task_running, task_badaddr]"
    by (simp add: example_client_def)
  have running: "Status_State task_badaddr = ''running''"
    by (simp add: task_badaddr_def)
  note inst = unparsed_address_is_nil_endpoint [where networkMap = example_networkMap
      and virtualIP = ?vip and networkService = ?nw and net = example_net
      and networks = "[]" and service = service_vip and c = ?c
      and serviceList = "[service_vip]"
      and serverVersion = "\<lparr>Version_Version = ''17.06'', APIVersion = ''1.30''\<rparr>"
      and networkList = "[?nw]" and service' = service_vip and virtualIP' = ?vip
      and networkService' = ?nw and isLB = example_isBackendLBSwarm
      and addr = "''10.0.0.7''" and attachment = ?att and task = task_badaddr
      and attachments = "[?att]" and serviceDockerData = example_api
      and isGlobalSvc = True and serviceID = "''s5''"
      and taskList = "[task_running, task_badaddr]", folded nm]
  have c1: "map_of (parseService_vip example_net example_networkMap [] ?vip) (nr_Name ?nw)
       = Some \<lparr>nd_Name = nr_Name ?nw, nd_Addr = ''<nil>'', nd_Port = 0,
                nd_Protocol = '''', nd_ID = vip_NetworkID ?vip\<rparr>"
    using inst known_vip nonempty unparsed_vip by blast
  have c2: "len_map (Networks (NetworkSettings
         (parseService example_net service_vip example_networkMap))) > 0"
    using inst mode vips known_vip nonempty unparsed_vip by blast
  have c3: "parseService example_net service_vip example_networkMap
       \<in> set (fst (snd (listServices example_isBackendLBSwarm ?c example_net)))"
    using inst services version networks lb mode vips known_vip nonempty unparsed_vip
    by simp
  have c4: "map_of (parseTasks_address example_net ?nw ?att [] ''10.0.0.7'') (nr_Name ?nw)
       = Some \<lparr>nd_Name = nr_Name ?nw, nd_Addr = ''<nil>'', nd_Port = 0,
                nd_Protocol = '''', nd_ID = Network_ID ?att\<rparr>"
    using inst unparsed by blast
  have c5: "parseTasks example_net task_badaddr example_api example_networkMap True
       \<in> set (fst (snd (listTasks ?c example_net ''s5'' example_api example_networkMap True)))"
    using inst atts known_att unparsed tasks running by simp
  from known unparsed c1 mode vips c2 lb c3 c4 atts tasks running c5
  show ?thesis by simp
qed

end
